theory Spec2Isabelle
  imports Complex_Main
begin

section \<open>JavaScript strings\<close>

text \<open>
  A JavaScript string is a sequence of UTF-16 code units. A \<^typ>\<open>char\<close> of the model is the code
  unit of the same number, so the model covers the texts whose code units are below 256
  (ASCII and Latin-1). Among them the white space of \<^verbatim>\<open>\s\<close> and of \<^verbatim>\<open>trim()\<close> is
  TAB, LF, VT, FF, CR, SPACE and NBSP, and the line terminators that \<^verbatim>\<open>^\<close> looks at
  under the \<^verbatim>\<open>m\<close> flag are LF and CR.
\<close>

definition is_space :: "char \<Rightarrow> bool" where
  "is_space c \<longleftrightarrow>
     c = CHR 0x09 \<or> c = CHR 0x0A \<or> c = CHR 0x0B \<or> c = CHR 0x0C \<or> c = CHR 0x0D \<or>
     c = CHR 0x20 \<or> c = CHR 0xA0"

definition is_line_terminator :: "char \<Rightarrow> bool" where
  "is_line_terminator c \<longleftrightarrow> c = CHR 0x0A \<or> c = CHR 0x0D"

definition is_digit :: "char \<Rightarrow> bool" where
  "is_digit c \<longleftrightarrow> c \<in> set ''0123456789''"

definition trim :: "string \<Rightarrow> string" where
  "trim s = rev (dropWhile is_space (rev (dropWhile is_space s)))"

text \<open>\<^verbatim>\<open>s.split(d)\<close> for a one-character separator: never empty, \<^verbatim>\<open>''.split(d)\<close> is \<^verbatim>\<open>['']\<close>.\<close>

fun split_on :: "char \<Rightarrow> string \<Rightarrow> string list" where
  "split_on d [] = [[]]"
| "split_on d (c # cs) =
     (if c = d then [] # split_on d cs
      else (case split_on d cs of [] \<Rightarrow> [[c]] | l # ls \<Rightarrow> (c # l) # ls))"

fun starts_with :: "string \<Rightarrow> string \<Rightarrow> bool" where
  "starts_with s [] = True"
| "starts_with [] (p # ps) = False"
| "starts_with (c # cs) (p # ps) = (c = p \<and> starts_with cs ps)"

text \<open>\<^verbatim>\<open>s.includes(p)\<close>.\<close>

fun str_includes :: "string \<Rightarrow> string \<Rightarrow> bool" where
  "str_includes [] p = starts_with [] p"
| "str_includes (c # cs) p = (starts_with (c # cs) p \<or> str_includes cs p)"

text \<open>\<^verbatim>\<open>s.indexOf(p)\<close>, with \<open>None\<close> for -1.\<close>

fun indexOf :: "string \<Rightarrow> string \<Rightarrow> nat option" where
  "indexOf [] p = (if starts_with [] p then Some 0 else None)"
| "indexOf (c # cs) p =
     (if starts_with (c # cs) p then Some 0 else map_option Suc (indexOf cs p))"

definition upper_ascii :: "char \<Rightarrow> char" where
  "upper_ascii c =
     (case map_of (zip ''abcdefghijklmnopqrstuvwxyz'' ''ABCDEFGHIJKLMNOPQRSTUVWXYZ'') c of
        Some u \<Rightarrow> u | None \<Rightarrow> c)"

section \<open>Regular expressions, by backtracking\<close>

text \<open>
  A pattern is a function from the rest of the input to the result of the match, built from
  the pattern's pieces in continuation-passing style: each piece takes the matcher \<open>k\<close> of
  what follows it, and tries its own alternatives in the order of the JavaScript engine
  (the longest repetition first for a greedy quantifier, the shortest first for a lazy
  one), going on to the next alternative when \<open>k\<close> fails.
\<close>

text \<open>A literal text.\<close>

fun lit :: "string \<Rightarrow> (string \<Rightarrow> 'a option) \<Rightarrow> string \<Rightarrow> 'a option" where
  "lit [] k s = k s"
| "lit (p # ps) k [] = None"
| "lit (p # ps) k (c # cs) = (if c = p then lit ps k cs else None)"

text \<open>A literal text under the \<^verbatim>\<open>i\<close> flag (the pattern's letters are ASCII).\<close>

fun lit_ci :: "string \<Rightarrow> (string \<Rightarrow> 'a option) \<Rightarrow> string \<Rightarrow> 'a option" where
  "lit_ci [] k s = k s"
| "lit_ci (p # ps) k [] = None"
| "lit_ci (p # ps) k (c # cs) = (if upper_ascii c = upper_ascii p then lit_ci ps k cs else None)"

text \<open>\<^verbatim>\<open>X*\<close>, greedy, for a character class \<open>P\<close>; \<open>acc\<close> is the text matched so far.\<close>

fun star :: "(char \<Rightarrow> bool) \<Rightarrow> (string \<Rightarrow> string \<Rightarrow> 'a option) \<Rightarrow> string \<Rightarrow> string \<Rightarrow> 'a option" where
  "star P k acc [] = k acc []"
| "star P k acc (c # cs) =
     (if P c then (case star P k (acc @ [c]) cs of Some r \<Rightarrow> Some r | None \<Rightarrow> k acc (c # cs))
      else k acc (c # cs))"

text \<open>\<^verbatim>\<open>X+\<close>, greedy.\<close>

definition plus_cls :: "(char \<Rightarrow> bool) \<Rightarrow> (string \<Rightarrow> string \<Rightarrow> 'a option) \<Rightarrow> string \<Rightarrow> 'a option" where
  "plus_cls P k s = (case s of [] \<Rightarrow> None | c # cs \<Rightarrow> if P c then star P k [c] cs else None)"

text \<open>\<^verbatim>\<open>X*?\<close>, lazy.\<close>

fun lazy :: "(char \<Rightarrow> bool) \<Rightarrow> (string \<Rightarrow> string \<Rightarrow> 'a option) \<Rightarrow> string \<Rightarrow> string \<Rightarrow> 'a option" where
  "lazy P k acc [] = k acc []"
| "lazy P k acc (c # cs) =
     (case k acc (c # cs) of Some r \<Rightarrow> Some r
      | None \<Rightarrow> if P c then lazy P k (acc @ [c]) cs else None)"

text \<open>\<^verbatim>\<open>X?\<close>, greedy.\<close>

definition opt_cls :: "(char \<Rightarrow> bool) \<Rightarrow> (string \<Rightarrow> 'a option) \<Rightarrow> string \<Rightarrow> 'a option" where
  "opt_cls P k s =
     (case s of [] \<Rightarrow> k []
      | c # cs \<Rightarrow> if P c then (case k cs of Some r \<Rightarrow> Some r | None \<Rightarrow> k (c # cs)) else k (c # cs))"

text \<open>\<^verbatim>\<open>\s*\<close>.\<close>

definition spaces :: "(string \<Rightarrow> 'a option) \<Rightarrow> string \<Rightarrow> 'a option" where
  "spaces k = star is_space (\<lambda>_. k) []"

definition any_char :: "char \<Rightarrow> bool" where
  "any_char c = True"

text \<open>
  \<^verbatim>\<open>text.match(re)\<close> without the \<^verbatim>\<open>g\<close> flag: the match at the leftmost start position
  that has one, the end of the text included.
\<close>

fun first_match :: "(string \<Rightarrow> 'a option) \<Rightarrow> string \<Rightarrow> 'a option" where
  "first_match m [] = m []"
| "first_match m (c # cs) = (case m (c # cs) of Some r \<Rightarrow> Some r | None \<Rightarrow> first_match m cs)"

section \<open>The status block\<close>

record RalphStatus =
  taskCompleted :: string
  filesCreated :: "string list"
  nextTask :: string
  exitSignal :: bool
  notesText :: string

text \<open>
  \<^verbatim>\<open>/RALPH_STATUS:\s*([\s\S]*?)(?=\n\n|\z)/\<close>. The pattern has no \<^verbatim>\<open>u\<close> flag, so \<^verbatim>\<open>\z\<close> is
  an identity escape: the letter z, not an anchor. The result is capture group 1.
\<close>

definition block_end :: "string \<Rightarrow> bool" where
  "block_end rest \<longleftrightarrow> starts_with rest ''\<newline>\<newline>'' \<or> starts_with rest ''z''"

definition status_block :: "string \<Rightarrow> string option" where
  "status_block =
     first_match (lit ''RALPH_STATUS:'' (spaces
       (lazy any_char (\<lambda>cap rest. if block_end rest then Some cap else None) [])))"

text \<open>\<^verbatim>\<open>/KEY:\s*"([^"]+)"/\<close> for the three quoted fields.\<close>

definition quoted_field :: "string \<Rightarrow> string \<Rightarrow> string option" where
  "quoted_field key =
     first_match (lit key (spaces (lit ''\"''
       (plus_cls (\<lambda>c. c \<noteq> CHR ''\"'') (\<lambda>cap. lit ''\"'' (\<lambda>_. Some cap))))))"

text \<open>\<^verbatim>\<open>/FILES_CREATED:\s*\[(.*?)\]/s\<close>: under the \<^verbatim>\<open>s\<close> flag the dot matches every character.\<close>

definition files_field :: "string \<Rightarrow> string option" where
  "files_field =
     first_match (lit ''FILES_CREATED:'' (spaces (lit ''[''
       (lazy any_char (\<lambda>cap. lit '']'' (\<lambda>_. Some cap)) []))))"

text \<open>\<^verbatim>\<open>/EXIT_SIGNAL:\s*(true|false)/\<close>, the capture compared with \<^verbatim>\<open>'true'\<close>.\<close>

definition exit_field :: "string \<Rightarrow> bool option" where
  "exit_field =
     first_match (lit ''EXIT_SIGNAL:'' (spaces (\<lambda>s.
       case lit ''true'' (\<lambda>_. Some True) s of Some r \<Rightarrow> Some r
       | None \<Rightarrow> lit ''false'' (\<lambda>_. Some False) s)))"

definition parseRalphStatus :: "string \<Rightarrow> RalphStatus option" where
  "parseRalphStatus text =
     (case status_block text of
        None \<Rightarrow> None
      | Some statusBlock \<Rightarrow>
          Some \<lparr>
            taskCompleted =
              (case quoted_field ''TASK_COMPLETED:'' statusBlock of Some t \<Rightarrow> t | None \<Rightarrow> []),
            filesCreated =
              (case files_field statusBlock of
                 Some fs \<Rightarrow>
                   filter (\<lambda>f. f \<noteq> [])
                     (map (\<lambda>f. filter (\<lambda>c. c \<noteq> CHR ''\"'') (trim f)) (split_on CHR '','' fs))
               | None \<Rightarrow> []),
            nextTask =
              (case quoted_field ''NEXT_TASK:'' statusBlock of Some t \<Rightarrow> t | None \<Rightarrow> []),
            exitSignal = (case exit_field statusBlock of Some b \<Rightarrow> b | None \<Rightarrow> False),
            notesText = (case quoted_field ''NOTES:'' statusBlock of Some t \<Rightarrow> t | None \<Rightarrow> [])
          \<rparr>)"

section \<open>JavaScript values\<close>

text \<open>
  The values that \<^verbatim>\<open>JSON.parse\<close> returns and that the code builds from them. An object is
  the list of its own properties in insertion order, with one entry for a key. Numbers are
  the finite ones; a number that overflows to an infinity while parsing is outside the model.
\<close>

datatype jsval =
    JUndefined
  | JNull
  | JBool bool
  | JNum real
  | JStr string
  | JArr "jsval list"
  | JObj "(string \<times> jsval) list"

datatype js_error = TypeError | SyntaxError | Error string

text \<open>
  What the code takes from the JavaScript runtime: \<^verbatim>\<open>JSON.parse\<close> (\<open>None\<close> when it throws
  a SyntaxError), the decimal text of a number, the upper-case form of a character that is
  not ASCII, the reading of the clock (one reading stands for every \<^verbatim>\<open>Date.now()\<close> of a
  call), the message text of the engine's own errors, and the conversion of a value that
  is not a number to one (\<open>None\<close> for NaN; it may throw on an object).
\<close>

record js_env =
  json_parse :: "string \<Rightarrow> jsval option"
  num_to_string :: "real \<Rightarrow> string"
  upper_nonascii :: "char \<Rightarrow> string"
  now :: real
  engine_message :: "js_error \<Rightarrow> string"
  to_number :: "jsval \<Rightarrow> js_error + real option"

text \<open>
  \<^verbatim>\<open>v.k\<close>: a TypeError on \<^verbatim>\<open>undefined\<close> and \<^verbatim>\<open>null\<close>. The property names that the code reads
  are own properties of objects only: no string, array, number or boolean has one of them,
  nor has \<^verbatim>\<open>Object.prototype\<close>.
\<close>

fun get_prop :: "jsval \<Rightarrow> string \<Rightarrow> js_error + jsval" where
  "get_prop JUndefined k = Inl TypeError"
| "get_prop JNull k = Inl TypeError"
| "get_prop (JObj fs) k = Inr (case map_of fs k of Some v \<Rightarrow> v | None \<Rightarrow> JUndefined)"
| "get_prop v k = Inr JUndefined"

text \<open>\<^verbatim>\<open>v?.k\<close>, and \<^verbatim>\<open>v.k\<close> where \<open>v\<close> is known not to be \<^verbatim>\<open>undefined\<close> or \<^verbatim>\<open>null\<close>.\<close>

fun opt_prop :: "jsval \<Rightarrow> string \<Rightarrow> jsval" where
  "opt_prop (JObj fs) k = (case map_of fs k of Some v \<Rightarrow> v | None \<Rightarrow> JUndefined)"
| "opt_prop v k = JUndefined"

fun truthy :: "jsval \<Rightarrow> bool" where
  "truthy JUndefined = False"
| "truthy JNull = False"
| "truthy (JBool b) = b"
| "truthy (JNum x) = (x \<noteq> 0)"
| "truthy (JStr s) = (s \<noteq> [])"
| "truthy (JArr xs) = True"
| "truthy (JObj fs) = True"

text \<open>\<^verbatim>\<open>a || b\<close>.\<close>

definition js_or :: "jsval \<Rightarrow> jsval \<Rightarrow> jsval" where
  "js_or a b = (if truthy a then a else b)"

text \<open>\<^verbatim>\<open>typeof v === 'object'\<close>, \<^verbatim>\<open>Array.isArray(v)\<close>.\<close>

fun is_object_type :: "jsval \<Rightarrow> bool" where
  "is_object_type JNull = True"
| "is_object_type (JArr xs) = True"
| "is_object_type (JObj fs) = True"
| "is_object_type v = False"

fun isArray :: "jsval \<Rightarrow> bool" where
  "isArray (JArr xs) = True"
| "isArray v = False"

fun join_with :: "string \<Rightarrow> string list \<Rightarrow> string" where
  "join_with sep [] = []"
| "join_with sep [x] = x"
| "join_with sep (x # y # ys) = x @ sep @ join_with sep (y # ys)"

text \<open>
  \<^verbatim>\<open>String(v)\<close>. An array is its elements joined by commas, \<^verbatim>\<open>null\<close> and \<^verbatim>\<open>undefined\<close>
  empty. An object is \<^verbatim>\<open>[object Object]\<close>, unless it has an own property \<^verbatim>\<open>toString\<close>: a
  parsed value is never callable, and the conversion throws a TypeError.
\<close>

fun to_string :: "js_env \<Rightarrow> jsval \<Rightarrow> js_error + string" where
  "to_string js JUndefined = Inr ''undefined''"
| "to_string js JNull = Inr ''null''"
| "to_string js (JBool b) = Inr (if b then ''true'' else ''false'')"
| "to_string js (JNum x) = Inr (num_to_string js x)"
| "to_string js (JStr s) = Inr s"
| "to_string js (JArr xs) =
     (case those (map (\<lambda>x. if x = JUndefined \<or> x = JNull then Some []
                             else (case to_string js x of Inl e \<Rightarrow> None | Inr t \<Rightarrow> Some t)) xs) of
        None \<Rightarrow> Inl TypeError
      | Some parts \<Rightarrow> Inr (join_with '','' parts))"
| "to_string js (JObj fs) =
     (if ''toString'' \<in> fst ` set fs then Inl TypeError else Inr ''[object Object]'')"

text \<open>\<^verbatim>\<open>parts.join('')\<close>.\<close>

fun join_parts :: "js_env \<Rightarrow> jsval list \<Rightarrow> js_error + string" where
  "join_parts js [] = Inr []"
| "join_parts js (x # xs) =
     (case (if x = JUndefined \<or> x = JNull then Inr [] else to_string js x) of
        Inl e \<Rightarrow> Inl e
      | Inr t \<Rightarrow> (case join_parts js xs of Inl e \<Rightarrow> Inl e | Inr ts \<Rightarrow> Inr (t @ ts)))"

definition is_ascii :: "char \<Rightarrow> bool" where
  "is_ascii c \<longleftrightarrow> (of_char c :: nat) < 128"

definition toUpperCase :: "js_env \<Rightarrow> string \<Rightarrow> string" where
  "toUpperCase js s =
     concat (map (\<lambda>c. if is_ascii c then [upper_ascii c] else upper_nonascii js c) s)"

text \<open>
  \<^verbatim>\<open>parseInt(s, 10)\<close>, \<open>None\<close> for NaN: leading white space, a sign, then the longest run of
  digits. The value is exact (a double rounds it from 2^53 on).
\<close>

definition digit_val :: "char \<Rightarrow> int" where
  "digit_val c = int (of_char c) - 48"

definition digits_val :: "string \<Rightarrow> int" where
  "digits_val ds = foldl (\<lambda>a c. 10 * a + digit_val c) 0 ds"

definition parseInt :: "string \<Rightarrow> int option" where
  "parseInt s =
     (let t = dropWhile is_space s;
          neg = (case t of c # _ \<Rightarrow> c = CHR ''-'' | [] \<Rightarrow> False);
          u = (case t of c # cs \<Rightarrow> if c = CHR ''-'' \<or> c = CHR ''+'' then cs else t | [] \<Rightarrow> t);
          ds = takeWhile is_digit u
      in if ds = [] then None else Some (if neg then - digits_val ds else digits_val ds))"

text \<open>\<^verbatim>\<open>{...o, k: v}\<close> on the property list: an own key keeps its place, a new one goes last.\<close>

fun obj_set :: "string \<Rightarrow> jsval \<Rightarrow> (string \<times> jsval) list \<Rightarrow> (string \<times> jsval) list" where
  "obj_set k v [] = [(k, v)]"
| "obj_set k v ((k', v') # fs) = (if k' = k then (k, v) # fs else (k', v') # obj_set k v fs)"

text \<open>The own properties that a spread copies; the code spreads objects only.\<close>

fun own_props :: "jsval \<Rightarrow> (string \<times> jsval) list" where
  "own_props (JObj fs) = fs"
| "own_props v = []"

text \<open>A callback that may throw, mapped over an array with the element's index.\<close>

fun map_idx :: "(nat \<Rightarrow> 'a \<Rightarrow> js_error + 'b) \<Rightarrow> nat \<Rightarrow> 'a list \<Rightarrow> js_error + 'b list" where
  "map_idx f i [] = Inr []"
| "map_idx f i (x # xs) =
     (case f i x of
        Inl e \<Rightarrow> Inl e
      | Inr y \<Rightarrow> (case map_idx f (Suc i) xs of Inl e \<Rightarrow> Inl e | Inr ys \<Rightarrow> Inr (y # ys)))"

section \<open>The review report\<close>

text \<open>A review result is the JavaScript object that the parser returns, read by its keys.\<close>

definition review_statuses :: "string list" where
  "review_statuses = [''COMPLETE'', ''PARTIAL'', ''INCOMPLETE'', ''ERROR'', ''PENDING'']"

text \<open>The \<^verbatim>\<open>valid\<close> field of \<^verbatim>\<open>validateReviewResultWithDetails\<close>.\<close>

definition validateReviewResultWithDetails :: "jsval \<Rightarrow> bool" where
  "validateReviewResultWithDetails result =
     (if \<not> truthy result \<or> \<not> is_object_type result then False
      else opt_prop result ''reviewStatus'' \<in> set (map JStr review_statuses) \<and>
           (case opt_prop result ''overallScore'' of
              JNum x \<Rightarrow> \<not> (x < 0 \<or> x > 100)
            | _ \<Rightarrow> False) \<and>
           isArray (opt_prop result ''requirements''))"

definition fix_status :: "js_env \<Rightarrow> jsval \<Rightarrow> js_error + jsval" where
  "fix_status js v =
     (case to_string js (js_or v (JStr [])) of
        Inl e \<Rightarrow> Inl e
      | Inr t \<Rightarrow>
          (let status = toUpperCase js t
           in Inr (JStr (if status \<in> set review_statuses then status
                         else if str_includes status ''COMPLETE'' then ''COMPLETE''
                         else if str_includes status ''PARTIAL'' then ''PARTIAL''
                         else ''INCOMPLETE''))))"

definition fix_score :: "jsval \<Rightarrow> jsval" where
  "fix_score v =
     (case v of
        JNum x \<Rightarrow> JNum (max 0 (min 100 x))
      | JStr t \<Rightarrow> JNum (case parseInt t of None \<Rightarrow> 0 | Some n \<Rightarrow> real_of_int n)
      | _ \<Rightarrow> JNum 0)"

text \<open>\<^verbatim>\<open>words.includes(String(v).toUpperCase()) ? String(v).toUpperCase() : dflt\<close>.\<close>

definition fix_enum :: "js_env \<Rightarrow> string list \<Rightarrow> string \<Rightarrow> jsval \<Rightarrow> js_error + jsval" where
  "fix_enum js words dflt v =
     (case to_string js v of
        Inl e \<Rightarrow> Inl e
      | Inr t \<Rightarrow> Inr (JStr (if toUpperCase js t \<in> set words then toUpperCase js t else dflt)))"

definition fix_requirement :: "js_env \<Rightarrow> nat \<Rightarrow> jsval \<Rightarrow> js_error + jsval" where
  "fix_requirement js idx req =
     (case get_prop req ''id'' of
        Inl e \<Rightarrow> Inl e
      | Inr rid \<Rightarrow>
          (case fix_enum js [''COMPLETE'', ''PARTIAL'', ''MISSING''] ''MISSING'' (opt_prop req ''status'') of
             Inl e \<Rightarrow> Inl e
           | Inr st \<Rightarrow>
               Inr (JObj
                 [(''id'', js_or rid (JStr (''REQ-'' @ num_to_string js (real (idx + 1))))),
                  (''description'',
                     js_or (opt_prop req ''description'')
                       (js_or (opt_prop req ''name'') (JStr ''Unknown requirement''))),
                  (''status'', st),
                  (''evidence'', opt_prop req ''evidence''),
                  (''notes'', opt_prop req ''notes'')])))"

definition fix_missing_item :: "js_env \<Rightarrow> nat \<Rightarrow> jsval \<Rightarrow> js_error + jsval" where
  "fix_missing_item js idx item =
     (case get_prop item ''description'' of
        Inl e \<Rightarrow> Inl e
      | Inr d \<Rightarrow>
          (case (if truthy d then Inr d else map_sum id JStr (to_string js item)) of
             Inl e \<Rightarrow> Inl e
           | Inr descr \<Rightarrow>
               (case fix_enum js [''HIGH'', ''MEDIUM'', ''LOW''] ''MEDIUM'' (opt_prop item ''priority'') of
                  Inl e \<Rightarrow> Inl e
                | Inr pr \<Rightarrow>
                    Inr (JObj
                      [(''description'', descr),
                       (''priority'', pr),
                       (''suggestedFix'', opt_prop item ''suggestedFix'')]))))"

text \<open>\<^verbatim>\<open>Array.isArray(v) ? v.map(String) : dflt\<close>.\<close>

definition string_array :: "js_env \<Rightarrow> jsval \<Rightarrow> string list \<Rightarrow> js_error + jsval" where
  "string_array js v dflt =
     (case v of
        JArr xs \<Rightarrow>
          map_sum id JArr (map_idx (\<lambda>i x. map_sum id JStr (to_string js x)) 0 xs)
      | _ \<Rightarrow> Inr (JArr (map JStr dflt)))"

text \<open>\<^verbatim>\<open>String(v || dflt)\<close>.\<close>

definition string_or :: "js_env \<Rightarrow> jsval \<Rightarrow> string \<Rightarrow> js_error + jsval" where
  "string_or js v dflt = map_sum id JStr (to_string js (js_or v (JStr dflt)))"

definition fix_setup :: "js_env \<Rightarrow> jsval \<Rightarrow> js_error + jsval" where
  "fix_setup js setup =
     (case string_array js (opt_prop setup ''envVars'') [] of Inl e \<Rightarrow> Inl e | Inr ev \<Rightarrow>
      case string_array js (opt_prop setup ''installCommands'') [''npm install''] of Inl e \<Rightarrow> Inl e | Inr ic \<Rightarrow>
      case string_or js (opt_prop setup ''buildCommand'') ''npm run build'' of Inl e \<Rightarrow> Inl e | Inr bc \<Rightarrow>
      case string_or js (opt_prop setup ''testCommand'') ''npm test'' of Inl e \<Rightarrow> Inl e | Inr tc \<Rightarrow>
      case string_or js (opt_prop setup ''runCommand'') ''npm start'' of Inl e \<Rightarrow> Inl e | Inr rc \<Rightarrow>
        Inr (JObj [(''envVars'', ev), (''installCommands'', ic), (''buildCommand'', bc),
                   (''testCommand'', tc), (''runCommand'', rc)]))"

definition fixReviewResult :: "js_env \<Rightarrow> jsval \<Rightarrow> js_error + jsval" where
  "fixReviewResult js result =
     (case get_prop result ''reviewStatus'' of Inl e \<Rightarrow> Inl e | Inr rs \<Rightarrow>
      case fix_status js rs of Inl e \<Rightarrow> Inl e | Inr status \<Rightarrow>
      case (case opt_prop result ''requirements'' of
              JArr reqs \<Rightarrow> map_sum id JArr (map_idx (fix_requirement js) 0 reqs)
            | _ \<Rightarrow> Inr (JArr [])) of Inl e \<Rightarrow> Inl e | Inr requirements \<Rightarrow>
      case (case opt_prop result ''missingItems'' of
              JArr items \<Rightarrow> map_sum id JArr (map_idx (fix_missing_item js) 0 items)
            | _ \<Rightarrow> Inr (JArr [])) of Inl e \<Rightarrow> Inl e | Inr missingItems \<Rightarrow>
      case string_or js (opt_prop result ''summary'') ''Review completed'' of Inl e \<Rightarrow> Inl e | Inr summary \<Rightarrow>
      case string_or js (opt_prop result ''testingNotes'') [] of Inl e \<Rightarrow> Inl e | Inr testingNotes \<Rightarrow>
      case (if truthy (opt_prop result ''setupInstructions'') \<and>
               is_object_type (opt_prop result ''setupInstructions'')
            then map_sum id (\<lambda>v. [(''setupInstructions'', v)])
                   (fix_setup js (opt_prop result ''setupInstructions''))
            else Inr []) of Inl e \<Rightarrow> Inl e | Inr setup \<Rightarrow>
        Inr (JObj
          ([(''reviewStatus'', status),
            (''overallScore'', fix_score (opt_prop result ''overallScore'')),
            (''requirements'', requirements),
            (''missingItems'', missingItems),
            (''summary'', summary),
            (''testingNotes'', testingNotes)] @ setup)))"

definition default_setup :: jsval where
  "default_setup =
     JObj [(''envVars'', JArr []), (''installCommands'', JArr []),
           (''buildCommand'', JStr ''npm run build''), (''testCommand'', JStr ''npm test''),
           (''runCommand'', JStr ''npm start'')]"

definition normalizeReviewResult :: "js_env \<Rightarrow> jsval \<Rightarrow> jsval" where
  "normalizeReviewResult js partial =
     JObj
       [(''reviewStatus'', js_or (opt_prop partial ''reviewStatus'') (JStr ''ERROR'')),
        (''overallScore'', js_or (opt_prop partial ''overallScore'') (JNum 0)),
        (''requirements'', js_or (opt_prop partial ''requirements'') (JArr [])),
        (''missingItems'', js_or (opt_prop partial ''missingItems'') (JArr [])),
        (''setupInstructions'', js_or (opt_prop partial ''setupInstructions'') default_setup),
        (''testingNotes'', js_or (opt_prop partial ''testingNotes'') (JStr [])),
        (''summary'', js_or (opt_prop partial ''summary'') (JStr ''No summary available'')),
        (''timestamp'', js_or (opt_prop partial ''timestamp'') (JNum (now js))),
        (''rawOutput'', opt_prop partial ''rawOutput''),
        (''reviewDurationMs'', opt_prop partial ''reviewDurationMs'')]"

definition createErrorReviewResult :: "js_env \<Rightarrow> string \<Rightarrow> jsval \<Rightarrow> jsval" where
  "createErrorReviewResult js error rawOutput =
     JObj
       [(''reviewStatus'', JStr ''ERROR''),
        (''overallScore'', JNum 0),
        (''requirements'', JArr []),
        (''missingItems'', JArr []),
        (''setupInstructions'',
           JObj [(''envVars'', JArr []), (''installCommands'', JArr []),
                 (''buildCommand'', JStr []), (''testCommand'', JStr []),
                 (''runCommand'', JStr [])]),
        (''testingNotes'', JStr []),
        (''summary'', JStr (''Review failed: '' @ error)),
        (''timestamp'', JNum (now js)),
        (''rawOutput'', rawOutput)]"

text \<open>One line of \<^verbatim>\<open>extractTextFromStreamJson\<close>: the parts it pushes.\<close>

definition stream_line_parts :: "js_env \<Rightarrow> string \<Rightarrow> jsval list" where
  "stream_line_parts js line =
     (let trimmed = trim line
      in if trimmed = [] then []
         else (case json_parse js trimmed of
                 None \<Rightarrow> if \<not> starts_with trimmed ''{'' then [JStr trimmed] else []
               | Some event \<Rightarrow>
                   (case get_prop event ''type'' of
                      Inl e \<Rightarrow> if \<not> starts_with trimmed ''{'' then [JStr trimmed] else []
                    | Inr ty \<Rightarrow>
                        (if ty = JStr ''content_block_delta'' \<and>
                            truthy (opt_prop (opt_prop event ''delta'') ''text'')
                         then [opt_prop (opt_prop event ''delta'') ''text''] else []) @
                        (if ty = JStr ''content_block_start'' \<and>
                            truthy (opt_prop (opt_prop event ''content_block'') ''text'')
                         then [opt_prop (opt_prop event ''content_block'') ''text''] else []))))"

definition extractTextFromStreamJson :: "js_env \<Rightarrow> string \<Rightarrow> js_error + string" where
  "extractTextFromStreamJson js output =
     join_parts js (concat (map (stream_line_parts js) (split_on CHR 0x0A output)))"

text \<open>\<^verbatim>\<open>/```json\s*([\s\S]*?)```/\<close>, capture group 1.\<close>

definition json_code_block :: "string \<Rightarrow> string option" where
  "json_code_block =
     first_match (lit ''```json'' (spaces
       (lazy any_char (\<lambda>cap. lit ''```'' (\<lambda>_. Some cap)) [])))"

text \<open>
  \<^verbatim>\<open>/\{[\s\S]*?"reviewStatus"[\s\S]*?\}(?=\s*$|[^}])/\<close>, the whole match. Without the \<^verbatim>\<open>m\<close>
  flag \<^verbatim>\<open>$\<close> is the end of the text.
\<close>

definition raw_json_end :: "string \<Rightarrow> bool" where
  "raw_json_end rest \<longleftrightarrow>
     list_all is_space rest \<or> (case rest of [] \<Rightarrow> False | c # _ \<Rightarrow> c \<noteq> CHR ''}'')"

definition raw_json_match :: "string \<Rightarrow> string option" where
  "raw_json_match =
     first_match (lit ''{'' (lazy any_char (\<lambda>a. lit ''\"reviewStatus\"''
       (lazy any_char (\<lambda>b. lit ''}''
          (\<lambda>rest. if raw_json_end rest then Some (''{'' @ a @ ''\"reviewStatus\"'' @ b @ ''}'')
                   else None)) [])) []))"

text \<open>
  The brace-matching loop from \<open>startIdx\<close>: the number of characters up to and including the
  brace that brings the depth back to 0, or 0 when none does (\<open>endIdx\<close> stays \<open>startIdx\<close>).
\<close>

fun brace_scan :: "int \<Rightarrow> nat \<Rightarrow> string \<Rightarrow> nat" where
  "brace_scan depth n [] = 0"
| "brace_scan depth n (c # cs) =
     (let d1 = (if c = CHR ''{'' then depth + 1 else depth)
      in if c = CHR ''}'' then (if d1 - 1 = 0 then Suc n else brace_scan (d1 - 1) (Suc n) cs)
         else brace_scan d1 (Suc n) cs)"

definition raw_json_text :: "string \<Rightarrow> string \<Rightarrow> string" where
  "raw_json_text textContent m =
     (case indexOf textContent m of
        None \<Rightarrow> []
      | Some startIdx \<Rightarrow>
          take (brace_scan 0 0 (drop startIdx textContent)) (drop startIdx textContent))"

text \<open>
  What both \<^verbatim>\<open>try\<close> blocks do with the parsed value: a valid one is returned with the two
  fields added, another is repaired and normalised. An exception leaves the block.
\<close>

definition with_stamp :: "js_env \<Rightarrow> string \<Rightarrow> jsval \<Rightarrow> jsval" where
  "with_stamp js output v =
     JObj (obj_set ''rawOutput'' (JStr output) (obj_set ''timestamp'' (JNum (now js)) (own_props v)))"

definition accept_parsed :: "js_env \<Rightarrow> string \<Rightarrow> jsval \<Rightarrow> js_error + jsval" where
  "accept_parsed js output parsed =
     (if validateReviewResultWithDetails parsed then Inr (with_stamp js output parsed)
      else (case fixReviewResult js parsed of
              Inl e \<Rightarrow> Inl e
            | Inr fixed \<Rightarrow> Inr (normalizeReviewResult js (with_stamp js output fixed))))"

definition try_json :: "js_env \<Rightarrow> string \<Rightarrow> string \<Rightarrow> jsval option" where
  "try_json js output jsonStr =
     (case json_parse js jsonStr of
        None \<Rightarrow> None
      | Some parsed \<Rightarrow> (case accept_parsed js output parsed of Inl e \<Rightarrow> None | Inr r \<Rightarrow> Some r))"

text \<open>A single character of a class.\<close>

definition cls :: "(char \<Rightarrow> bool) \<Rightarrow> (string \<Rightarrow> 'a option) \<Rightarrow> string \<Rightarrow> 'a option" where
  "cls P k s = (case s of [] \<Rightarrow> None | c # cs \<Rightarrow> if P c then k cs else None)"

definition is_quote :: "char \<Rightarrow> bool" where
  "is_quote c \<longleftrightarrow> c = CHR ''\"'' \<or> c = CHR 0x27"

definition is_colon_eq :: "char \<Rightarrow> bool" where
  "is_colon_eq c \<longleftrightarrow> c = CHR '':'' \<or> c = CHR ''=''"

text \<open>One word of an alternation under the \<^verbatim>\<open>i\<close> flag, captured as the text has it.\<close>

definition word_ci :: "string \<Rightarrow> (string \<Rightarrow> string \<Rightarrow> 'a option) \<Rightarrow> string \<Rightarrow> 'a option" where
  "word_ci w k s = lit_ci w (k (take (length w) s)) s"

text \<open>\<^verbatim>\<open>/reviewStatus["']?\s*[:=]\s*["']?(COMPLETE|PARTIAL|INCOMPLETE)["']?/i\<close>, group 1.\<close>

definition partial_status :: "string \<Rightarrow> string option" where
  "partial_status =
     first_match (lit_ci ''reviewStatus'' (opt_cls is_quote (spaces (cls is_colon_eq (spaces
       (opt_cls is_quote (\<lambda>s.
          let k = (\<lambda>cap. opt_cls is_quote (\<lambda>_. Some cap))
          in case word_ci ''COMPLETE'' k s of Some r \<Rightarrow> Some r
             | None \<Rightarrow> (case word_ci ''PARTIAL'' k s of Some r \<Rightarrow> Some r
                        | None \<Rightarrow> word_ci ''INCOMPLETE'' k s))))))))"

text \<open>\<^verbatim>\<open>/overallScore["']?\s*[:=]\s*(\d+)/\<close>, group 1.\<close>

definition partial_score :: "string \<Rightarrow> string option" where
  "partial_score =
     first_match (lit ''overallScore'' (opt_cls is_quote (spaces (cls is_colon_eq (spaces
       (plus_cls is_digit (\<lambda>cap _. Some cap)))))))"

text \<open>\<^verbatim>\<open>/summary["']?\s*[:=]\s*["']([^"']+)["']/\<close>, group 1.\<close>

definition partial_summary :: "string \<Rightarrow> string option" where
  "partial_summary =
     first_match (lit ''summary'' (opt_cls is_quote (spaces (cls is_colon_eq (spaces
       (cls is_quote (plus_cls (\<lambda>c. \<not> is_quote c)
          (\<lambda>cap. cls is_quote (\<lambda>_. Some cap)))))))))"

definition extractPartialReview :: "js_env \<Rightarrow> string \<Rightarrow> jsval option" where
  "extractPartialReview js output =
     (let result0 =
            [(''reviewStatus'', JStr ''ERROR''),
             (''overallScore'', JNum 0),
             (''requirements'', JArr []),
             (''missingItems'', JArr []),
             (''setupInstructions'', default_setup),
             (''testingNotes'', JStr []),
             (''summary'',
                JStr ''Review output could not be fully parsed. See raw output for details.'')];
          statusMatch = partial_status output;
          result1 = (case statusMatch of
                       Some cap \<Rightarrow> obj_set ''reviewStatus'' (JStr (toUpperCase js cap)) result0
                     | None \<Rightarrow> result0);
          scoreMatch = partial_score output;
          result2 = (case scoreMatch of
                       Some cap \<Rightarrow>
                         obj_set ''overallScore''
                           (case parseInt cap of Some n \<Rightarrow> JNum (real_of_int n) | None \<Rightarrow> JUndefined)
                           result1
                     | None \<Rightarrow> result1);
          result3 = (case partial_summary output of
                       Some cap \<Rightarrow> obj_set ''summary'' (JStr cap) result2
                     | None \<Rightarrow> result2)
      in if statusMatch \<noteq> None \<or> scoreMatch \<noteq> None then Some (JObj result3) else None)"

text \<open>
  \<^verbatim>\<open>parseReviewOutput\<close>: \<open>Inr None\<close> is the \<^verbatim>\<open>null\<close> it returns when every tier fails,
  \<open>Inl\<close> an exception that leaves it (joining the stream's text parts is outside every
  \<^verbatim>\<open>try\<close> block).
\<close>

definition parseReviewOutput :: "js_env \<Rightarrow> string \<Rightarrow> js_error + jsval option" where
  "parseReviewOutput js output =
     (case (if str_includes output ''\"type\":\"content_block_delta\"'' \<or>
               str_includes output ''\"type\":\"message_start\"''
            then extractTextFromStreamJson js output else Inr output) of
        Inl e \<Rightarrow> Inl e
      | Inr textContent \<Rightarrow>
          Inr (case (case json_code_block textContent of
                       None \<Rightarrow> None
                     | Some cap \<Rightarrow> try_json js output (trim cap)) of
                 Some r \<Rightarrow> Some r
               | None \<Rightarrow>
                   (case (case raw_json_match textContent of
                            None \<Rightarrow> None
                          | Some m \<Rightarrow> try_json js output (raw_json_text textContent m)) of
                      Some r \<Rightarrow> Some r
                    | None \<Rightarrow>
                        (case extractPartialReview js textContent of
                           Some partialResult \<Rightarrow>
                             Some (normalizeReviewResult js (with_stamp js output partialResult))
                         | None \<Rightarrow> None))))"

section \<open>The process manager\<close>

type_synonym session_id = string
type_synonym proc = nat

datatype loop_mode = Plan | Build

record AutoContinueConfig =
  enabled :: bool
  maxAutoIterations :: int
  currentAutoIteration :: int

text \<open>\<^verbatim>\<open>LoopConfig\<close>; an optional field that is absent is \<open>None\<close>.\<close>

record LoopConfig =
  projectPath :: string
  promptFile :: string
  mode :: loop_mode
  model :: string
  sessionId :: session_id
  claudeCliPath :: "string option"
  maxIterations :: "int option"
  autoPush :: "bool option"
  verbose :: "bool option"
  autoReview :: "bool option"
  autoContinue :: "AutoContinueConfig option"

record ReviewConfig =
  rc_projectPath :: string
  rc_sessionId :: session_id
  rc_model :: string
  rc_claudeCliPath :: "string option"

text \<open>The reason that a \<^verbatim>\<open>complete\<close> event carries.\<close>

datatype stop_reason =
    PlanExhausted
  | ExitSignalReceived
  | MaxIterationsReached "int option"
  | LoopStopped
  | ExitCode "int option"
  | Unknown

text \<open>The messages of the \<^verbatim>\<open>system\<close> events, by what they say instead of their text.\<close>

datatype sys_message =
    PlanMissingWarning
  | StartupBanner loop_mode string string int
  | PlanCompleted
  | Pushed string
  | IterationBanner nat
  | ExitSignalNotice
  | AutoReviewStarting
  | ReviewStarting
  | ReviewCompleted jsval jsval
  | ContinuationDocsGenerated
  | AutoContinueIteration int int
  | MaxAutoContinueReached int

text \<open>
  What the manager emits: the stream events of \<^verbatim>\<open>emitEvent\<close> and the events it emits under
  their own names. The time stamps of the events are left out.
\<close>

datatype event =
    Stdout jsval
  | StdoutRaw string
  | Stderr string
  | System sys_message
  | RalphStatusEvent RalphStatus
  | Complete "int option" stop_reason nat
  | ErrorEvent string
  | IterationUpdate nat "int option"
  | SessionEnd "int option"
  | ReviewStart
  | ReviewComplete jsval
  | ReviewError string

datatype signal = SIGTERM | SIGKILL | SIGSTOP | SIGCONT

record spawn_rec =
  sp_shell :: string
  sp_args :: "string list"
  sp_cwd :: string
  sp_env :: "(string \<times> string) list"

text \<open>A path of the file system exists as a readable file, or exists and cannot be read.\<close>

datatype file_entry = Readable string | Unreadable

text \<open>
  The state: the twelve maps of \<^verbatim>\<open>ProcessManager\<close>, and the world that its methods act on:
  the events emitted so far, the child processes spawned so far (a process is its position
  in the list), the signals sent, the timers of the forced kill, and the files.
\<close>

record pm_state =
  processes :: "session_id \<rightharpoonup> proc"
  outputBuffers :: "session_id \<rightharpoonup> string"
  sessionConfigs :: "session_id \<rightharpoonup> LoopConfig"
  iterationCounts :: "session_id \<rightharpoonup> nat"
  claudeSessionIds :: "session_id \<rightharpoonup> jsval"
  shouldContinueLoop :: "session_id \<rightharpoonup> bool"
  exitSignalReceived :: "session_id \<rightharpoonup> bool"
  currentBranches :: "session_id \<rightharpoonup> string"
  reviewInProgress :: "session_id \<rightharpoonup> bool"
  latestReviewResults :: "session_id \<rightharpoonup> jsval"
  e2eInProgress :: "session_id \<rightharpoonup> bool"
  latestE2EResults :: "session_id \<rightharpoonup> jsval"
  emitted :: "(session_id \<times> event) list"
  spawned :: "spawn_rec list"
  signals :: "(proc \<times> signal) list"
  kill_timers :: "(session_id \<times> proc) list"
  files :: "string \<rightharpoonup> file_entry"

text \<open>How the review subprocess ends: it closes, the ten minutes pass, or it cannot start.\<close>

datatype review_run =
    Closed "int option" string string
  | TimedOut
  | SpawnFailed string

text \<open>
  What a call takes from outside the manager: the runtime, the platform, the answer of
  \<^verbatim>\<open>git branch --show-current\<close> in a directory (\<open>None\<close> when the command fails), the error
  of the push if it fails, the error of a \<^verbatim>\<open>writeFile\<close> that fails, how the review
  subprocess ends and how long the review took, and the texts of the document templates
  (\<^verbatim>\<open>templates.ts\<close>), which may throw on a result that lacks a field.
\<close>

record host =
  js :: js_env
  isWindows :: bool
  git_branch :: "string \<Rightarrow> string option"
  git_push :: "string \<Rightarrow> string \<Rightarrow> string option"
  write_error :: "string \<Rightarrow> string option"
  review_outcome :: review_run
  review_elapsed :: real
  basename :: "string \<Rightarrow> string"
  generateReviewPromptMd :: "string \<Rightarrow> string"
  generateContinuationPromptMd :: "jsval \<Rightarrow> string \<Rightarrow> js_error + string"
  generateReviewFindingsSection :: "jsval \<Rightarrow> js_error + string"

definition path_join :: "string \<Rightarrow> string \<Rightarrow> string" where
  "path_join dir name = dir @ ''/'' @ name"

definition existsSync :: "pm_state \<Rightarrow> string \<Rightarrow> bool" where
  "existsSync s p \<longleftrightarrow> files s p \<noteq> None"

definition readFile :: "pm_state \<Rightarrow> string \<Rightarrow> string option" where
  "readFile s p = (case files s p of Some (Readable c) \<Rightarrow> Some c | _ \<Rightarrow> None)"

definition writeFile :: "host \<Rightarrow> string \<Rightarrow> string \<Rightarrow> pm_state \<Rightarrow> js_error + pm_state" where
  "writeFile h p c s =
     (case write_error h p of
        Some msg \<Rightarrow> Inl (Error msg)
      | None \<Rightarrow> Inr (s\<lparr>files := (files s)(p \<mapsto> Readable c)\<rparr>))"

text \<open>\<^verbatim>\<open>error instanceof Error ? error.message : ...\<close>: every error of the model is an Error.\<close>

fun error_message :: "js_env \<Rightarrow> js_error \<Rightarrow> string" where
  "error_message j (Error msg) = msg"
| "error_message j e = engine_message j e"

definition emitEvent :: "session_id \<Rightarrow> event \<Rightarrow> pm_state \<Rightarrow> pm_state" where
  "emitEvent sid ev s = s\<lparr>emitted := emitted s @ [(sid, ev)]\<rparr>"

subsection \<open>The plan-exhaustion check\<close>

text \<open>\<^verbatim>\<open>-\s*\[\s*\]\<close> at the start of a text.\<close>

definition unchecked_marker :: "string \<Rightarrow> bool" where
  "unchecked_marker s \<longleftrightarrow>
     lit ''-'' (spaces (lit ''['' (spaces (lit '']'' (\<lambda>_. Some ()))))) s \<noteq> None"

text \<open>
  \<^verbatim>\<open>/^-\s*\[\s*\]/m.test(content)\<close>: under the \<^verbatim>\<open>m\<close> flag \<^verbatim>\<open>^\<close> holds at the start of the
  text and after a line terminator; \<open>bol\<close> says whether it holds here.
\<close>

fun has_unchecked :: "bool \<Rightarrow> string \<Rightarrow> bool" where
  "has_unchecked bol [] = (bol \<and> unchecked_marker [])"
| "has_unchecked bol (c # cs) =
     ((bol \<and> unchecked_marker (c # cs)) \<or> has_unchecked (is_line_terminator c) cs)"

definition checkPlanExhausted :: "pm_state \<Rightarrow> string \<Rightarrow> bool" where
  "checkPlanExhausted s dir =
     (case readFile s (path_join dir ''IMPLEMENTATION_PLAN.md'') of
        Some content \<Rightarrow> \<not> has_unchecked True content
      | None \<Rightarrow> False)"

subsection \<open>Starting a loop\<close>

definition mode_name :: "loop_mode \<Rightarrow> string" where
  "mode_name m = (case m of Plan \<Rightarrow> ''plan'' | Build \<Rightarrow> ''build'')"

text \<open>\<^verbatim>\<open>claudeCliPath || 'claude'\<close>.\<close>

definition cli_command :: "string option \<Rightarrow> string" where
  "cli_command p = (case p of Some c \<Rightarrow> if c = [] then ''claude'' else c | None \<Rightarrow> ''claude'')"

definition quote_if_spaced :: "string \<Rightarrow> string" where
  "quote_if_spaced t = (if CHR '' '' \<in> set t then ''\"'' @ t @ ''\"'' else t)"

definition loop_command :: "host \<Rightarrow> LoopConfig \<Rightarrow> string" where
  "loop_command h config =
     (let cliCommand = cli_command (claudeCliPath config);
          flags = '' -p --dangerously-skip-permissions --output-format=stream-json --model='' @
                  model config @ (if verbose config = Some True then '' --verbose'' else [])
      in if isWindows h
         then ''type '' @ quote_if_spaced (promptFile config) @ '' | '' @
              quote_if_spaced cliCommand @ flags
         else ''cat \"'' @ promptFile config @ ''\" | \"'' @ cliCommand @ ''\"'' @ flags)"

text \<open>\<^verbatim>\<open>spawn\<close> returns a child at once; a child that cannot start reports it later.\<close>

definition spawn :: "host \<Rightarrow> string \<Rightarrow> string \<Rightarrow> (string \<times> string) list \<Rightarrow> pm_state \<Rightarrow> proc \<times> pm_state" where
  "spawn h command cwd env s =
     (length (spawned s),
      s\<lparr>spawned := spawned s @
           [\<lparr>sp_shell = (if isWindows h then ''cmd.exe'' else ''bash''),
             sp_args = [if isWindows h then ''/c'' else ''-c'', command],
             sp_cwd = cwd, sp_env = env\<rparr>]\<rparr>)"

definition startLoop :: "host \<Rightarrow> LoopConfig \<Rightarrow> pm_state \<Rightarrow> (js_error + unit) \<times> pm_state" where
  "startLoop h config s =
     (let sid = sessionId config;
          promptPath = path_join (projectPath config) (promptFile config)
      in if processes s sid \<noteq> None
         then (Inl (Error (''Session '' @ sid @ '' is already running'')), s)
         else if \<not> existsSync s promptPath
         then (Inl (Error (''Prompt file not found: '' @ promptPath)), s)
         else
           (let s1 = (if \<not> existsSync s (path_join (projectPath config) ''IMPLEMENTATION_PLAN.md'')
                      then emitEvent sid (System PlanMissingWarning) s else s);
                branch_out = git_branch h (projectPath config);
                currentBranch =
                  (case branch_out of
                     Some out \<Rightarrow> if trim out = [] then ''HEAD'' else trim out
                   | None \<Rightarrow> ''not a git repo'');
                s2 = (case branch_out of
                        Some out \<Rightarrow> s1\<lparr>currentBranches := (currentBranches s1)(sid \<mapsto> currentBranch)\<rparr>
                      | None \<Rightarrow> s1);
                (p, s3) = spawn h (loop_command h config) (projectPath config)
                            [(''RALPH_MODE'', mode_name (mode config)), (''RALPH_SESSION_ID'', sid)] s2;
                s4 = s3\<lparr>processes := (processes s3)(sid \<mapsto> p),
                        outputBuffers := (outputBuffers s3)(sid \<mapsto> []),
                        sessionConfigs := (sessionConfigs s3)(sid \<mapsto> config),
                        iterationCounts := (iterationCounts s3)
                          (sid \<mapsto> (case iterationCounts s3 sid of Some n \<Rightarrow> n | None \<Rightarrow> 0)),
                        shouldContinueLoop := (shouldContinueLoop s3)(sid \<mapsto> True),
                        exitSignalReceived := (exitSignalReceived s3)(sid \<mapsto> False)\<rparr>
            in (Inr (),
                emitEvent sid
                  (System (StartupBanner (mode config) (promptFile config) currentBranch
                     (case maxIterations config of Some m \<Rightarrow> m | None \<Rightarrow> 0))) s4)))"

subsection \<open>The output of the child\<close>

definition handleRalphStatus :: "session_id \<Rightarrow> RalphStatus \<Rightarrow> pm_state \<Rightarrow> pm_state" where
  "handleRalphStatus sid status s =
     (let s1 = emitEvent sid (RalphStatusEvent status) s
      in if exitSignal status
         then emitEvent sid (System ExitSignalNotice)
                (s1\<lparr>exitSignalReceived := (exitSignalReceived s1)(sid \<mapsto> True)\<rparr>)
         else s1)"

text \<open>The \<^verbatim>\<open>catch\<close> block of the \<^verbatim>\<open>stdout\<close> handler.\<close>

definition raw_line :: "session_id \<Rightarrow> string \<Rightarrow> pm_state \<Rightarrow> pm_state" where
  "raw_line sid line s =
     (let s1 = emitEvent sid (StdoutRaw line) s
      in case parseRalphStatus line of Some st \<Rightarrow> handleRalphStatus sid st s1 | None \<Rightarrow> s1)"

text \<open>
  The body of the loop over the lines. Reading \<^verbatim>\<open>parsed.type\<close> throws when the line is the
  JSON text \<^verbatim>\<open>null\<close>, and \<^verbatim>\<open>text.match\<close> is not a function when the text is not a
  string: both go to the \<^verbatim>\<open>catch\<close> block after the parsed event was emitted.
\<close>

definition handle_line :: "js_env \<Rightarrow> session_id \<Rightarrow> string \<Rightarrow> pm_state \<Rightarrow> pm_state" where
  "handle_line j sid line s =
     (if trim line = [] then s
      else (case json_parse j line of
              None \<Rightarrow> raw_line sid line s
            | Some parsed \<Rightarrow>
                (let s1 = emitEvent sid (Stdout parsed) s
                 in case get_prop parsed ''type'' of
                      Inl e \<Rightarrow> raw_line sid line s1
                    | Inr ty \<Rightarrow>
                        (let s2 = (if ty = JStr ''system'' \<and> opt_prop parsed ''subtype'' = JStr ''init'' \<and>
                                      truthy (opt_prop parsed ''session_id'')
                                   then s1\<lparr>claudeSessionIds :=
                                             (claudeSessionIds s1)(sid \<mapsto> opt_prop parsed ''session_id'')\<rparr>
                                   else s1);
                             text = opt_prop (opt_prop (opt_prop parsed ''event'') ''delta'') ''text''
                         in if truthy text
                            then (case text of
                                    JStr t \<Rightarrow>
                                      (case parseRalphStatus t of
                                         Some st \<Rightarrow> handleRalphStatus sid st s2
                                       | None \<Rightarrow> s2)
                                  | _ \<Rightarrow> raw_line sid line s2)
                            else s2))))"

text \<open>The \<^verbatim>\<open>data\<close> handler of \<^verbatim>\<open>stdout\<close>, on the text of a chunk.\<close>

definition stdout_data :: "js_env \<Rightarrow> session_id \<Rightarrow> string \<Rightarrow> pm_state \<Rightarrow> pm_state" where
  "stdout_data j sid text s =
     (let buffer = (case outputBuffers s sid of Some b \<Rightarrow> b | None \<Rightarrow> []) @ text;
          lines = split_on CHR 0x0A buffer;
          s1 = s\<lparr>outputBuffers := (outputBuffers s)(sid \<mapsto> last lines)\<rparr>
      in foldl (\<lambda>st line. handle_line j sid line st) s1 (butlast lines))"

definition stderr_data :: "session_id \<Rightarrow> string \<Rightarrow> pm_state \<Rightarrow> pm_state" where
  "stderr_data sid message s = emitEvent sid (Stderr message) s"

subsection \<open>Cleaning up and stopping\<close>

definition cleanupSession :: "session_id \<Rightarrow> pm_state \<Rightarrow> pm_state" where
  "cleanupSession sid s =
     s\<lparr>processes := (processes s)(sid := None),
       outputBuffers := (outputBuffers s)(sid := None),
       sessionConfigs := (sessionConfigs s)(sid := None),
       iterationCounts := (iterationCounts s)(sid := None),
       claudeSessionIds := (claudeSessionIds s)(sid := None),
       shouldContinueLoop := (shouldContinueLoop s)(sid := None),
       exitSignalReceived := (exitSignalReceived s)(sid := None),
       currentBranches := (currentBranches s)(sid := None),
       reviewInProgress := (reviewInProgress s)(sid := None),
       e2eInProgress := (e2eInProgress s)(sid := None)\<rparr>"

text \<open>
  \<^verbatim>\<open>stopLoop\<close> in its two steps: the flag, then the termination. \<^verbatim>\<open>kill('SIGTERM')\<close> does
  not throw (a child that is gone makes it return false).
\<close>

definition mark_stopped :: "session_id \<Rightarrow> pm_state \<Rightarrow> pm_state" where
  "mark_stopped sid s = s\<lparr>shouldContinueLoop := (shouldContinueLoop s)(sid \<mapsto> False)\<rparr>"

definition terminate :: "session_id \<Rightarrow> pm_state \<Rightarrow> bool \<times> pm_state" where
  "terminate sid s =
     (case processes s sid of
        None \<Rightarrow> (False, cleanupSession sid s)
      | Some p \<Rightarrow>
          (True, s\<lparr>signals := signals s @ [(p, SIGTERM)],
                   kill_timers := kill_timers s @ [(sid, p)]\<rparr>))"

definition stopLoop :: "session_id \<Rightarrow> pm_state \<Rightarrow> bool \<times> pm_state" where
  "stopLoop sid s = terminate sid (mark_stopped sid s)"

text \<open>The timer of \<^verbatim>\<open>stopLoop\<close>, five seconds later.\<close>

definition force_kill :: "session_id \<Rightarrow> proc \<Rightarrow> pm_state \<Rightarrow> pm_state" where
  "force_kill sid p s =
     (if processes s sid \<noteq> None then s\<lparr>signals := signals s @ [(p, SIGKILL)]\<rparr> else s)"

subsection \<open>The review\<close>

definition review_command :: "host \<Rightarrow> ReviewConfig \<Rightarrow> string" where
  "review_command h rc =
     (let cliCommand = cli_command (rc_claudeCliPath rc)
      in if isWindows h
         then ''type PROMPT_review.md | '' @ quote_if_spaced cliCommand @ '' -p --model='' @ rc_model rc
         else ''cat PROMPT_review.md | \"'' @ cliCommand @ ''\" -p --model='' @ rc_model rc)"

text \<open>\<^verbatim>\<open>${code}\<close> for an exit code, which is \<^verbatim>\<open>null\<close> when a signal ended the child.\<close>

definition code_text :: "js_env \<Rightarrow> int option \<Rightarrow> string" where
  "code_text j code = (case code of None \<Rightarrow> ''null'' | Some c \<Rightarrow> num_to_string j (real_of_int c))"

text \<open>
  The \<^verbatim>\<open>close\<close> handler of the review subprocess: \<open>Inr\<close> is the output that the promise
  resolves with, \<open>Inl\<close> the error that it rejects with.
\<close>

definition review_close :: "js_env \<Rightarrow> int option \<Rightarrow> string \<Rightarrow> string \<Rightarrow> js_error + string" where
  "review_close j code stdout stderr =
     (if code = Some 0 \<or> stdout \<noteq> [] then Inr (stdout @ stderr)
      else Inl (Error (''Review process exited with code '' @ code_text j code @ '': '' @ stderr)))"

text \<open>The promise around the subprocess.\<close>

definition review_process :: "host \<Rightarrow> ReviewConfig \<Rightarrow> pm_state \<Rightarrow> (js_error + string) \<times> pm_state" where
  "review_process h rc s =
     (let (p, s1) = spawn h (review_command h rc) (rc_projectPath rc) [(''RALPH_MODE'', ''review'')] s
      in case review_outcome h of
           Closed code stdout stderr \<Rightarrow> (review_close (js h) code stdout stderr, s1)
         | TimedOut \<Rightarrow>
             (Inl (Error ''Review timed out after 10 minutes''),
              s1\<lparr>signals := signals s1 @ [(p, SIGTERM)]\<rparr>)
         | SpawnFailed msg \<Rightarrow> (Inl (Error msg), s1))"

definition set_field :: "string \<Rightarrow> jsval \<Rightarrow> jsval \<Rightarrow> jsval" where
  "set_field k v obj = JObj (obj_set k v (own_props obj))"

text \<open>
  The \<^verbatim>\<open>try\<close> block of \<^verbatim>\<open>runAutoReview\<close>: \<open>Inr\<close> is the result it returns, \<open>Inl\<close> the
  exception that goes to the \<^verbatim>\<open>catch\<close> block.
\<close>

definition review_try :: "host \<Rightarrow> ReviewConfig \<Rightarrow> pm_state \<Rightarrow> (js_error + jsval) \<times> pm_state" where
  "review_try h rc s =
     (let sid = rc_sessionId rc;
          dir = rc_projectPath rc
      in case writeFile h (path_join dir ''PROMPT_review.md'')
                (generateReviewPromptMd h (basename h dir)) s of
           Inl e \<Rightarrow> (Inl e, s)
         | Inr s1 \<Rightarrow>
             (case review_process h rc s1 of
                (Inl e, s2) \<Rightarrow> (Inl e, s2)
              | (Inr output, s2) \<Rightarrow>
                  (case writeFile h (path_join dir ''.review-debug-output.txt'') output s2 of
                     Inl e \<Rightarrow> (Inl e, s2)
                   | Inr s3 \<Rightarrow>
                       (case parseReviewOutput (js h) output of
                          Inl e \<Rightarrow> (Inl e, s3)
                        | Inr None \<Rightarrow>
                            (let errorResult =
                                   set_field ''reviewDurationMs'' (JNum (review_elapsed h))
                                     (createErrorReviewResult (js h) ''Failed to parse review output''
                                        (JStr output));
                                 s4 = s3\<lparr>latestReviewResults :=
                                           (latestReviewResults s3)(sid \<mapsto> errorResult)\<rparr>
                             in (Inr errorResult, emitEvent sid (ReviewComplete errorResult) s4))
                        | Inr (Some parsed) \<Rightarrow>
                            (let reviewResult =
                                   set_field ''reviewDurationMs'' (JNum (review_elapsed h)) parsed;
                                 s4 = s3\<lparr>latestReviewResults :=
                                           (latestReviewResults s3)(sid \<mapsto> reviewResult)\<rparr>;
                                 s5 = emitEvent sid
                                        (System (ReviewCompleted (opt_prop reviewResult ''reviewStatus'')
                                           (opt_prop reviewResult ''overallScore''))) s4
                             in (Inr reviewResult, emitEvent sid (ReviewComplete reviewResult) s5))))))"

definition review_catch :: "host \<Rightarrow> session_id \<Rightarrow> js_error \<Rightarrow> pm_state \<Rightarrow> jsval \<times> pm_state" where
  "review_catch h sid e s =
     (let errorMessage = error_message (js h) e;
          errorResult = set_field ''reviewDurationMs'' (JNum (review_elapsed h))
                          (createErrorReviewResult (js h) errorMessage (JStr []));
          s1 = s\<lparr>latestReviewResults := (latestReviewResults s)(sid \<mapsto> errorResult)\<rparr>;
          s2 = emitEvent sid (ErrorEvent (''Review failed: '' @ errorMessage)) s1
      in (errorResult, emitEvent sid (ReviewError errorMessage) s2))"

definition runAutoReview :: "host \<Rightarrow> ReviewConfig \<Rightarrow> pm_state \<Rightarrow> (js_error + jsval) \<times> pm_state" where
  "runAutoReview h rc s =
     (let sid = rc_sessionId rc;
          missingRequired =
            filter (\<lambda>f. \<not> existsSync s (path_join (rc_projectPath rc) f)) [''IMPLEMENTATION_PLAN.md'']
      in if reviewInProgress s sid = Some True
         then (Inl (Error ''Review already in progress''), s)
         else if missingRequired \<noteq> []
         then (let errorResult =
                     createErrorReviewResult (js h)
                       (''Missing required files: '' @ join_with '', '' missingRequired) (JStr [])
               in (Inr errorResult,
                   emitEvent sid
                     (ReviewError (case opt_prop errorResult ''summary'' of JStr t \<Rightarrow> t | _ \<Rightarrow> [])) s))
         else
           (let s1 = s\<lparr>reviewInProgress := (reviewInProgress s)(sid \<mapsto> True)\<rparr>;
                s2 = emitEvent sid (System ReviewStarting) (emitEvent sid ReviewStart s1);
                (result, s4) =
                  (case review_try h rc s2 of
                     (Inr r, s3) \<Rightarrow> (r, s3)
                   | (Inl e, s3) \<Rightarrow> review_catch h sid e s3)
            in (Inr result, s4\<lparr>reviewInProgress := (reviewInProgress s4)(sid := None)\<rparr>)))"

text \<open>
  \<^verbatim>\<open>generateContinuationDocs\<close>; with the error, the state that the exception leaves.
\<close>

definition generateContinuationDocs ::
  "host \<Rightarrow> string \<Rightarrow> session_id \<Rightarrow> jsval \<Rightarrow> pm_state \<Rightarrow> (js_error + unit) \<times> pm_state" where
  "generateContinuationDocs h dir sid reviewResult s =
     (case generateContinuationPromptMd h reviewResult (basename h dir) of
        Inl e \<Rightarrow> (Inl e, s)
      | Inr continuationPrompt \<Rightarrow>
          (case writeFile h (path_join dir ''PROMPT_continue.md'') continuationPrompt s of
             Inl e \<Rightarrow> (Inl e, s)
           | Inr s1 \<Rightarrow>
               (let planPath = path_join dir ''IMPLEMENTATION_PLAN.md'';
                    existingPlan = (case readFile s1 planPath of
                                      Some c \<Rightarrow> c
                                    | None \<Rightarrow> ''# Implementation Plan\<newline>'')
                in case generateReviewFindingsSection h reviewResult of
                     Inl e \<Rightarrow> (Inl e, s1)
                   | Inr reviewSection \<Rightarrow>
                       (case writeFile h planPath (existingPlan @ reviewSection) s1 of
                          Inl e \<Rightarrow> (Inl e, s1)
                        | Inr s2 \<Rightarrow>
                            (Inr (), emitEvent sid (System ContinuationDocsGenerated) s2)))))"

subsection \<open>The exit of the child\<close>

text \<open>
  The \<^verbatim>\<open>close\<close> handler removes the process and the buffer, and reads the session's
  configuration, flags and counter once, before its first \<^verbatim>\<open>await\<close>.
\<close>

record close_snapshot =
  snap_config :: "LoopConfig option"
  snap_shouldContinue :: "bool option"
  snap_exitSignal :: "bool option"
  snap_currentIteration :: nat

definition close_begin :: "session_id \<Rightarrow> pm_state \<Rightarrow> close_snapshot \<times> pm_state" where
  "close_begin sid s =
     (let s1 = s\<lparr>processes := (processes s)(sid := None),
                  outputBuffers := (outputBuffers s)(sid := None)\<rparr>
      in (\<lparr>snap_config = sessionConfigs s1 sid,
           snap_shouldContinue = shouldContinueLoop s1 sid,
           snap_exitSignal = exitSignalReceived s1 sid,
           snap_currentIteration = (case iterationCounts s1 sid of Some n \<Rightarrow> n | None \<Rightarrow> 0)\<rparr>,
          s1))"

text \<open>
  \<^verbatim>\<open>config?.maxIterations && config.maxIterations > 0 && currentIteration >= config.maxIterations\<close>.
\<close>

definition maxReached :: "close_snapshot \<Rightarrow> bool" where
  "maxReached snap \<longleftrightarrow>
     (case snap_config snap of
        None \<Rightarrow> False
      | Some config \<Rightarrow>
          (case maxIterations config of
             None \<Rightarrow> False
           | Some m \<Rightarrow> m \<noteq> 0 \<and> m > 0 \<and> int (snap_currentIteration snap) \<ge> m))"

definition planExhausted :: "close_snapshot \<Rightarrow> pm_state \<Rightarrow> bool" where
  "planExhausted snap s \<longleftrightarrow>
     (case snap_config snap of
        None \<Rightarrow> False
      | Some config \<Rightarrow> checkPlanExhausted s (projectPath config))"

text \<open>The condition of the \<^verbatim>\<open>if\<close> that chooses between the restart and the end of the loop.\<close>

definition will_restart :: "int option \<Rightarrow> close_snapshot \<Rightarrow> pm_state \<Rightarrow> bool" where
  "will_restart code snap s \<longleftrightarrow>
     code = Some 0 \<and> snap_shouldContinue snap = Some True \<and> snap_exitSignal snap \<noteq> Some True \<and>
     \<not> maxReached snap \<and> \<not> planExhausted snap s \<and> snap_config snap \<noteq> None"

definition stop_reason_of :: "int option \<Rightarrow> close_snapshot \<Rightarrow> pm_state \<Rightarrow> stop_reason" where
  "stop_reason_of code snap s =
     (if planExhausted snap s then PlanExhausted
      else if snap_exitSignal snap = Some True then ExitSignalReceived
      else if maxReached snap
      then MaxIterationsReached (case snap_config snap of Some c \<Rightarrow> maxIterations c | None \<Rightarrow> None)
      else if snap_shouldContinue snap \<noteq> Some True then LoopStopped
      else if code \<noteq> Some 0 then ExitCode code
      else Unknown)"

text \<open>The restart branch up to its two-second delay.\<close>

definition restart_prepare :: "host \<Rightarrow> session_id \<Rightarrow> LoopConfig \<Rightarrow> nat \<Rightarrow> pm_state \<Rightarrow> pm_state" where
  "restart_prepare h sid config currentIteration s =
     (let s1 = (if autoPush config = Some True
                then (let branch = (case currentBranches s sid of
                                      Some b \<Rightarrow> if b = [] then ''HEAD'' else b
                                    | None \<Rightarrow> ''HEAD'')
                      in case git_push h (projectPath config) branch of
                           None \<Rightarrow> emitEvent sid (System (Pushed branch)) s
                         | Some msg \<Rightarrow> emitEvent sid (Stderr (''Git push failed: '' @ msg)) s)
                else s);
          nextIteration = currentIteration + 1;
          s2 = s1\<lparr>iterationCounts := (iterationCounts s1)(sid \<mapsto> nextIteration)\<rparr>;
          s3 = emitEvent sid (IterationUpdate nextIteration (maxIterations config)) s2
      in emitEvent sid (System (IterationBanner nextIteration)) s3)"

text \<open>The restart branch after the delay: the flag is read again.\<close>

definition restart_after_delay :: "host \<Rightarrow> session_id \<Rightarrow> LoopConfig \<Rightarrow> pm_state \<Rightarrow> pm_state" where
  "restart_after_delay h sid config s =
     (if shouldContinueLoop s sid = Some True
      then (case startLoop h config s of
              (Inr u, s1) \<Rightarrow> s1
            | (Inl e, s1) \<Rightarrow>
                (let s2 = cleanupSession sid s1;
                     s3 = emitEvent sid
                            (ErrorEvent (''Failed to restart loop: '' @ error_message (js h) e)) s2
                 in emitEvent sid (SessionEnd (Some 1)) s3))
      else s)"

text \<open>\<^verbatim>\<open>reviewResult.missingItems.length > 0\<close>.\<close>

definition has_missing_items :: "js_env \<Rightarrow> jsval \<Rightarrow> js_error + bool" where
  "has_missing_items j reviewResult =
     (case opt_prop reviewResult ''missingItems'' of
        JUndefined \<Rightarrow> Inl TypeError
      | JNull \<Rightarrow> Inl TypeError
      | JArr xs \<Rightarrow> Inr (xs \<noteq> [])
      | JStr t \<Rightarrow> Inr (t \<noteq> [])
      | JObj fs \<Rightarrow>
          (case opt_prop (JObj fs) ''length'' of
             JNum x \<Rightarrow> Inr (x > 0)
           | JUndefined \<Rightarrow> Inr False
           | v \<Rightarrow> (case to_number j v of
                     Inl e \<Rightarrow> Inl e
                   | Inr None \<Rightarrow> Inr False
                   | Inr (Some x) \<Rightarrow> Inr (x > 0)))
      | _ \<Rightarrow> Inr False)"

text \<open>The condition of the automatic continuation; its third conjunct may throw.\<close>

definition continue_cond :: "js_env \<Rightarrow> AutoContinueConfig option \<Rightarrow> jsval \<Rightarrow> js_error + bool" where
  "continue_cond j ac reviewResult =
     (case ac of
        None \<Rightarrow> Inr False
      | Some a \<Rightarrow>
          if \<not> enabled a then Inr False
          else if opt_prop reviewResult ''reviewStatus'' = JStr ''COMPLETE'' then Inr False
          else (case has_missing_items j reviewResult of
                  Inl e \<Rightarrow> Inl e
                | Inr b \<Rightarrow> Inr (b \<and> currentAutoIteration a < maxAutoIterations a)))"

definition auto_review_failed :: "host \<Rightarrow> session_id \<Rightarrow> js_error \<Rightarrow> pm_state \<Rightarrow> pm_state" where
  "auto_review_failed h sid e s =
     emitEvent sid (ErrorEvent (''Auto-review failed: '' @ error_message (js h) e)) s"

text \<open>
  The \<^verbatim>\<open>try\<close> block of the automatic review, with its \<^verbatim>\<open>catch\<close>. The result is \<open>True\<close>
  when the handler returns from it because a continuation loop was started.
\<close>

definition auto_review :: "host \<Rightarrow> session_id \<Rightarrow> LoopConfig \<Rightarrow> pm_state \<Rightarrow> bool \<times> pm_state" where
  "auto_review h sid config s =
     (case runAutoReview h
             \<lparr>rc_projectPath = projectPath config, rc_sessionId = sid, rc_model = model config,
              rc_claudeCliPath = claudeCliPath config\<rparr>
             (emitEvent sid (System AutoReviewStarting) s) of
        (Inl e, s1) \<Rightarrow> (False, auto_review_failed h sid e s1)
      | (Inr reviewResult, s1) \<Rightarrow>
          (case continue_cond (js h) (autoContinue config) reviewResult of
             Inl e \<Rightarrow> (False, auto_review_failed h sid e s1)
           | Inr False \<Rightarrow>
               (False,
                case autoContinue config of
                  None \<Rightarrow> s1
                | Some a \<Rightarrow>
                    if enabled a \<and> currentAutoIteration a \<ge> maxAutoIterations a
                    then emitEvent sid (System (MaxAutoContinueReached (maxAutoIterations a))) s1
                    else s1)
           | Inr True \<Rightarrow>
               (case autoContinue config of
                  None \<Rightarrow> (False, s1)
                | Some a \<Rightarrow>
                    (case generateContinuationDocs h (projectPath config) sid reviewResult s1 of
                       (Inl e, s2) \<Rightarrow> (False, auto_review_failed h sid e s2)
                     | (Inr u, s2) \<Rightarrow>
                         (let nextAutoIteration = currentAutoIteration a + 1;
                              s3 = emitEvent sid
                                     (System (AutoContinueIteration nextAutoIteration
                                        (maxAutoIterations a))) s2;
                              continueConfig =
                                config\<lparr>promptFile := ''PROMPT_continue.md'',
                                       autoContinue :=
                                         Some (a\<lparr>currentAutoIteration := nextAutoIteration\<rparr>)\<rparr>;
                              s4 = s3\<lparr>iterationCounts := (iterationCounts s3)(sid \<mapsto> 0)\<rparr>
                          in case startLoop h continueConfig s4 of
                               (Inl e, s5) \<Rightarrow> (False, auto_review_failed h sid e s5)
                             | (Inr u, s5) \<Rightarrow> (True, s5))))))"

text \<open>The branch that ends the loop.\<close>

definition close_finish :: "host \<Rightarrow> session_id \<Rightarrow> int option \<Rightarrow> close_snapshot \<Rightarrow> pm_state \<Rightarrow> pm_state" where
  "close_finish h sid code snap s =
     (let s1 = emitEvent sid
                 (Complete code (stop_reason_of code snap s) (snap_currentIteration snap)) s;
          (continued, s2) =
            (case snap_config snap of
               Some config \<Rightarrow>
                 if code = Some 0 \<and> autoReview config = Some True \<and> snap_exitSignal snap \<noteq> Some True
                 then auto_review h sid config s1
                 else (False, s1)
             | None \<Rightarrow> (False, s1))
      in if continued then s2 else emitEvent sid (SessionEnd code) (cleanupSession sid s2))"

text \<open>
  The handler from the snapshot to the delay of the restart branch, or to its end: the
  result names the configuration of a restart that waits for the delay.
\<close>

definition close_decide ::
  "host \<Rightarrow> session_id \<Rightarrow> int option \<Rightarrow> close_snapshot \<Rightarrow> pm_state \<Rightarrow> LoopConfig option \<times> pm_state" where
  "close_decide h sid code snap s =
     (let s1 = (if planExhausted snap s then emitEvent sid (System PlanCompleted) s else s)
      in if will_restart code snap s
         then (case snap_config snap of
                 Some config \<Rightarrow>
                   (Some config, restart_prepare h sid config (snap_currentIteration snap) s1)
               | None \<Rightarrow> (None, s1))
         else (None, close_finish h sid code snap s1))"

text \<open>The whole \<^verbatim>\<open>close\<close> handler, when nothing else runs during its waits.\<close>

definition on_close :: "host \<Rightarrow> session_id \<Rightarrow> int option \<Rightarrow> pm_state \<Rightarrow> pm_state" where
  "on_close h sid code s =
     (let (snap, s1) = close_begin sid s
      in case close_decide h sid code snap s1 of
           (Some config, s2) \<Rightarrow> restart_after_delay h sid config s2
         | (None, s2) \<Rightarrow> s2)"

section \<open>The lines of a document\<close>

text \<open>The text between the line terminators, for what a line of the plan is.\<close>

fun doc_lines :: "string \<Rightarrow> string list" where
  "doc_lines [] = [[]]"
| "doc_lines (c # cs) =
     (if is_line_terminator c then [] # doc_lines cs
      else (case doc_lines cs of [] \<Rightarrow> [[c]] | l # ls \<Rightarrow> (c # l) # ls))"

text \<open>Position \<open>i\<close> of a text is the start of a line.\<close>

definition line_start :: "string \<Rightarrow> nat \<Rightarrow> bool" where
  "line_start content i \<longleftrightarrow> i = 0 \<or> (i \<le> length content \<and> is_line_terminator (content ! (i - 1)))"

section \<open>A sample session\<close>

text \<open>
  Concrete inputs for the examples: a runtime whose \<^verbatim>\<open>JSON.parse\<close> knows the texts that the
  examples use and whose numbers print as the decimal text of their integer part, a host
  on which git and the file system work, a manager that has done nothing yet, and the
  configuration of a session.
\<close>

function nat_text :: "nat \<Rightarrow> string" where
  "nat_text n =
     (if n < 10 then [''0123456789'' ! n] else nat_text (n div 10) @ [''0123456789'' ! (n mod 10)])"
  by pat_completeness auto
termination
  by (relation "measure id") auto

definition sample_json :: "string \<Rightarrow> jsval option" where
  "sample_json =
     map_of
       [(''null'', JNull),
        (''{\"type\":\"result\"}'', JObj [(''type'', JStr ''result'')]),
        (''{\"reviewStatus\":\"partial\",\"overallScore\":\"150\"}'',
           JObj [(''reviewStatus'', JStr ''partial''), (''overallScore'', JStr ''150'')])]"

definition sample_js :: js_env where
  "sample_js =
     \<lparr>json_parse = sample_json,
      num_to_string = (\<lambda>x. nat_text (nat \<lfloor>x\<rfloor>)),
      upper_nonascii = (\<lambda>c. [c]),
      now = 1000,
      engine_message = (\<lambda>e. ''TypeError''),
      to_number = (\<lambda>v. Inr None)\<rparr>"

definition sample_host :: host where
  "sample_host =
     \<lparr>js = sample_js,
      isWindows = False,
      git_branch = (\<lambda>dir. Some ''main\<newline>''),
      git_push = (\<lambda>dir branch. None),
      write_error = (\<lambda>path. None),
      review_outcome = Closed (Some 1) ''overallScore: 150'' [],
      review_elapsed = 5,
      basename = (\<lambda>dir. dir),
      generateReviewPromptMd = (\<lambda>name. ''Review '' @ name),
      generateContinuationPromptMd = (\<lambda>r name. Inr (''Continue '' @ name)),
      generateReviewFindingsSection = (\<lambda>r. Inr ''\<newline>- [ ] fix findings'')\<rparr>"

definition fresh :: "(string \<rightharpoonup> file_entry) \<Rightarrow> pm_state" where
  "fresh fs =
     \<lparr>processes = Map.empty, outputBuffers = Map.empty, sessionConfigs = Map.empty,
      iterationCounts = Map.empty, claudeSessionIds = Map.empty,
      shouldContinueLoop = Map.empty, exitSignalReceived = Map.empty,
      currentBranches = Map.empty, reviewInProgress = Map.empty,
      latestReviewResults = Map.empty, e2eInProgress = Map.empty,
      latestE2EResults = Map.empty, emitted = [], spawned = [], signals = [],
      kill_timers = [], files = fs\<rparr>"

definition open_plan :: "string \<rightharpoonup> file_entry" where
  "open_plan =
     [''proj/PROMPT_build.md'' \<mapsto> Readable ''Build the next task.'',
      ''proj/IMPLEMENTATION_PLAN.md'' \<mapsto> Readable ''# Plan\<newline>- [x] one\<newline>- [ ] two'']"

definition done_plan :: "string \<rightharpoonup> file_entry" where
  "done_plan =
     [''proj/PROMPT_build.md'' \<mapsto> Readable ''Build the next task.'',
      ''proj/IMPLEMENTATION_PLAN.md'' \<mapsto> Readable ''# Plan\<newline>- [x] one\<newline>- [x] two'']"

definition sample_config :: LoopConfig where
  "sample_config =
     \<lparr>projectPath = ''proj'', promptFile = ''PROMPT_build.md'', mode = Build,
      model = ''opus'', sessionId = ''s1'', claudeCliPath = None, maxIterations = Some 3,
      autoPush = None, verbose = None, autoReview = None, autoContinue = None\<rparr>"

definition sample_review :: ReviewConfig where
  "sample_review =
     \<lparr>rc_projectPath = ''proj'', rc_sessionId = ''s1'', rc_model = ''opus'',
      rc_claudeCliPath = None\<rparr>"

definition exit_status :: RalphStatus where
  "exit_status =
     \<lparr>taskCompleted = ''all tasks'', filesCreated = [], nextTask = [], exitSignal = True,
      notesText = []\<rparr>"

text \<open>The sample session right after its start, on a plan with an open item and on a plan without.\<close>

definition started :: pm_state where
  "started = snd (startLoop sample_host sample_config (fresh open_plan))"

definition started_done :: pm_state where
  "started_done = snd (startLoop sample_host sample_config (fresh done_plan))"

text \<open>
  What a line of the output is to give: the event of its parsed value when it parses, the
  event of its raw text when it does not.
\<close>

definition stdout_event :: "js_env \<Rightarrow> string \<Rightarrow> event" where
  "stdout_event j line = (case json_parse j line of Some parsed \<Rightarrow> Stdout parsed | None \<Rightarrow> StdoutRaw line)"

text \<open>
  The events of a line, as the claim about the output has them: none for a line of white
  space, and for another line its event first.
\<close>

definition line_block :: "js_env \<Rightarrow> session_id \<Rightarrow> string \<Rightarrow> (session_id \<times> event) list \<Rightarrow> bool" where
  "line_block j sid line block \<longleftrightarrow>
     (if trim line = [] then block = []
      else (case block of [] \<Rightarrow> False | e # rest \<Rightarrow> e = (sid, stdout_event j line)))"

text \<open>The manager after a review of the sample project, whose subprocess exited with code 1.\<close>

definition reviewed :: pm_state where
  "reviewed = snd (runAutoReview sample_host sample_review (fresh open_plan))"

text \<open>The reasons of the \<^verbatim>\<open>complete\<close> events emitted so far, and the number of them all.\<close>

fun complete_of :: "event \<Rightarrow> stop_reason option" where
  "complete_of (Complete code reason n) = Some reason"
| "complete_of ev = None"

definition stop_reasons :: "pm_state \<Rightarrow> stop_reason list" where
  "stop_reasons s = List.map_filter (\<lambda>(sid, ev). complete_of ev) (emitted s)"

section \<open>Properties\<close>

subsection \<open>An exit signal ends the loop\<close>

lemma planExhausted_files:
  "files s' = files s \<Longrightarrow> planExhausted snap s' = planExhausted snap s"
  by (simp add: planExhausted_def checkPlanExhausted_def readFile_def split: option.splits)

lemma handleRalphStatus_exit:
  "exitSignal st \<Longrightarrow> exitSignalReceived (handleRalphStatus sid st s) sid = Some True"
  by (simp add: handleRalphStatus_def emitEvent_def Let_def)

lemma handleRalphStatus_exit_kept:
  "exitSignalReceived s sid = Some True \<Longrightarrow>
   exitSignalReceived (handleRalphStatus sid st s) sid = Some True"
  by (simp add: handleRalphStatus_def emitEvent_def Let_def)

lemma raw_line_exit_kept:
  "exitSignalReceived s sid = Some True \<Longrightarrow>
   exitSignalReceived (raw_line sid line s) sid = Some True"
  by (simp add: raw_line_def emitEvent_def Let_def handleRalphStatus_exit_kept
        split: option.splits)

lemma handle_line_exit_kept:
  "exitSignalReceived s sid = Some True \<Longrightarrow>
   exitSignalReceived (handle_line j sid line s) sid = Some True"
  unfolding handle_line_def Let_def
  by (simp add: emitEvent_def raw_line_exit_kept handleRalphStatus_exit_kept
        split: option.splits sum.splits jsval.splits)

lemma lines_exit_kept:
  "exitSignalReceived s sid = Some True \<Longrightarrow>
   exitSignalReceived (foldl (\<lambda>st line. handle_line j sid line st) s ls) sid = Some True"
  by (induction ls arbitrary: s) (simp_all add: handle_line_exit_kept)

lemma stdout_data_exit_kept:
  "exitSignalReceived s sid = Some True \<Longrightarrow>
   exitSignalReceived (stdout_data j sid text s) sid = Some True"
  unfolding stdout_data_def Let_def
  by (rule lines_exit_kept) simp

lemma chunks_exit_kept:
  "exitSignalReceived s sid = Some True \<Longrightarrow>
   exitSignalReceived (foldl (\<lambda>st chunk. stdout_data j sid chunk st) s chunks) sid = Some True"
  by (induction chunks arbitrary: s) (simp_all add: stdout_data_exit_kept)

lemma will_restart_exit: "snap_exitSignal snap = Some True \<Longrightarrow> \<not> will_restart code snap s"
  by (simp add: will_restart_def)

lemma stop_reason_exit:
  "snap_exitSignal snap = Some True \<Longrightarrow>
   stop_reason_of code snap s =
   (if planExhausted snap s then PlanExhausted else ExitSignalReceived)"
  by (simp add: stop_reason_of_def)

lemma close_finish_exit:
  "snap_exitSignal snap = Some True \<Longrightarrow>
   close_finish h sid code snap s =
   emitEvent sid (SessionEnd code) (cleanupSession sid
     (emitEvent sid
        (Complete code (if planExhausted snap s then PlanExhausted else ExitSignalReceived)
           (snap_currentIteration snap)) s))"
  by (simp add: close_finish_def Let_def stop_reason_exit split: option.splits)

lemma close_decide_exit:
  "snap_exitSignal snap = Some True \<Longrightarrow>
   close_decide h sid code snap s =
   (None, close_finish h sid code snap
      (if planExhausted snap s then emitEvent sid (System PlanCompleted) s else s))"
  by (simp add: close_decide_def Let_def will_restart_exit)

lemma on_close_exit_signal:
  assumes "exitSignalReceived s sid = Some True"
    and "ex = (case sessionConfigs s sid of
                 Some c \<Rightarrow> checkPlanExhausted s (projectPath c) | None \<Rightarrow> False)"
    and "n = (case iterationCounts s sid of Some n \<Rightarrow> n | None \<Rightarrow> 0)"
  shows "on_close h sid (Some 0) s =
     emitEvent sid (SessionEnd (Some 0)) (cleanupSession sid
       (emitEvent sid (Complete (Some 0) (if ex then PlanExhausted else ExitSignalReceived) n)
          ((if ex then emitEvent sid (System PlanCompleted) else id)
             (s\<lparr>processes := (processes s)(sid := None),
                outputBuffers := (outputBuffers s)(sid := None)\<rparr>))))"
proof -
  define s1 where "s1 = s\<lparr>processes := (processes s)(sid := None),
                  outputBuffers := (outputBuffers s)(sid := None)\<rparr>"
  define snap where "snap = fst (close_begin sid s)"
  have cb: "close_begin sid s = (snap, s1)"
    by (simp add: snap_def s1_def close_begin_def Let_def)
  have sx: "snap_exitSignal snap = Some True"
    using assms(1) by (simp add: snap_def close_begin_def Let_def)
  have n: "snap_currentIteration snap = n"
    by (simp add: snap_def close_begin_def Let_def assms(3))
  have pe: "planExhausted snap s1 = ex"
    by (simp add: planExhausted_def snap_def close_begin_def Let_def s1_def assms(2)
          checkPlanExhausted_def readFile_def split: option.splits)
  have pe2: "planExhausted snap (emitEvent sid e s1) = ex" for e
    using pe planExhausted_files[of "emitEvent sid e s1" s1 snap] by (simp add: emitEvent_def)
  show ?thesis
    unfolding on_close_def cb s1_def[symmetric]
    by (simp add: close_decide_exit[OF sx] close_finish_exit[OF sx] pe pe2 n)
qed

text \<open>The definitions that the evaluation of an example unfolds.\<close>

lemmas run_defs =
  startLoop_def on_close_def close_begin_def close_decide_def close_finish_def
  restart_prepare_def restart_after_delay_def will_restart_def planExhausted_def
  maxReached_def stop_reason_of_def checkPlanExhausted_def readFile_def existsSync_def
  path_join_def spawn_def emitEvent_def cleanupSession_def loop_command_def cli_command_def
  mode_name_def unchecked_marker_def spaces_def is_space_def is_line_terminator_def trim_def
  stdout_data_def handle_line_def raw_line_def handleRalphStatus_def parseRalphStatus_def
  status_block_def block_end_def any_char_def quoted_field_def files_field_def
  exit_field_def plus_cls_def stop_reasons_def List.map_filter_def
  sample_host_def sample_js_def sample_json_def sample_config_def fresh_def open_plan_def
  done_plan_def started_def started_done_def exit_status_def Let_def

text \<open>
  C1, as amended. A status block with its exit signal set is handled, more output arrives,
  and the process exits with code 0: the handler spawns nothing, what it emits ends with
  the \<^verbatim>\<open>complete\<close> event and the end of the session, and the session is cleaned up: its
  process, buffer, configuration, counter, flags and branch are gone, and nothing else of
  the manager changed. The reason of the event is the exit signal unless the plan is
  exhausted, which comes first in the order of the reasons.
\<close>

theorem exit_signal_then_zero_exit_stops:
  assumes "exitSignal status"
  shows "let s1 = foldl (\<lambda>st chunk. stdout_data j sid chunk st)
                    (handleRalphStatus sid status s0) chunks;
             s2 = on_close h sid (Some 0) s1;
             ex = (case sessionConfigs s1 sid of
                     Some c \<Rightarrow> checkPlanExhausted s1 (projectPath c) | None \<Rightarrow> False);
             n = (case iterationCounts s1 sid of Some n \<Rightarrow> n | None \<Rightarrow> 0)
         in spawned s2 = spawned s1 \<and> processes s2 sid = None \<and>
            emitted s2 = emitted s1 @
              (if ex then [(sid, System PlanCompleted)] else []) @
              [(sid, Complete (Some 0) (if ex then PlanExhausted else ExitSignalReceived) n),
               (sid, SessionEnd (Some 0))] \<and>
            outputBuffers s2 sid = None \<and> sessionConfigs s2 sid = None \<and>
            iterationCounts s2 sid = None \<and> claudeSessionIds s2 sid = None \<and>
            shouldContinueLoop s2 sid = None \<and> exitSignalReceived s2 sid = None \<and>
            currentBranches s2 sid = None \<and> reviewInProgress s2 sid = None \<and>
            e2eInProgress s2 sid = None \<and>
            s2 = (cleanupSession sid s1)\<lparr>emitted := emitted s2\<rparr>"
proof -
  define s1 where "s1 = foldl (\<lambda>st chunk. stdout_data j sid chunk st)
                    (handleRalphStatus sid status s0) chunks"
  define ex where "ex = (case sessionConfigs s1 sid of
                     Some c \<Rightarrow> checkPlanExhausted s1 (projectPath c) | None \<Rightarrow> False)"
  define n where "n = (case iterationCounts s1 sid of Some n \<Rightarrow> n | None \<Rightarrow> 0)"
  define s2 where "s2 = on_close h sid (Some 0) s1"
  have "exitSignalReceived s1 sid = Some True"
    unfolding s1_def using assms by (intro chunks_exit_kept handleRalphStatus_exit)
  note oc = on_close_exit_signal[OF this ex_def n_def, of h, folded s2_def]
  have a: "spawned s2 = spawned s1"
    by (simp add: oc emitEvent_def cleanupSession_def)
  have b: "processes s2 sid = None"
    by (simp add: oc emitEvent_def cleanupSession_def)
  have c: "emitted s2 = emitted s1 @
              (if ex then [(sid, System PlanCompleted)] else []) @
              [(sid, Complete (Some 0) (if ex then PlanExhausted else ExitSignalReceived) n),
               (sid, SessionEnd (Some 0))]"
    by (simp add: oc emitEvent_def cleanupSession_def)
  have d: "outputBuffers s2 sid = None" "sessionConfigs s2 sid = None"
    "iterationCounts s2 sid = None" "claudeSessionIds s2 sid = None"
    "shouldContinueLoop s2 sid = None" "exitSignalReceived s2 sid = None"
    "currentBranches s2 sid = None" "reviewInProgress s2 sid = None"
    "e2eInProgress s2 sid = None"
    by (simp_all add: oc emitEvent_def cleanupSession_def)
  have e: "s2 = (cleanupSession sid s1)\<lparr>emitted := emitted s2\<rparr>"
    by (simp add: oc emitEvent_def cleanupSession_def)
  from a b c d e show ?thesis
    unfolding Let_def s1_def[symmetric] ex_def[symmetric] n_def[symmetric] s2_def[symmetric]
    by blast
qed

theorem exit_signal_then_zero_exit_stops_witness:
  "exitSignal exit_status \<and>
   (let s1 = foldl (\<lambda>st chunk. stdout_data sample_js ''s1'' chunk st)
               (handleRalphStatus ''s1'' exit_status started) [''bye\<newline>''];
        s2 = on_close sample_host ''s1'' (Some 0) s1;
        ex = (case sessionConfigs s1 ''s1'' of
                Some c \<Rightarrow> checkPlanExhausted s1 (projectPath c) | None \<Rightarrow> False);
        n = (case iterationCounts s1 ''s1'' of Some n \<Rightarrow> n | None \<Rightarrow> 0)
    in spawned s2 = spawned s1 \<and> processes s2 ''s1'' = None \<and>
       emitted s2 = emitted s1 @
         (if ex then [(''s1'', System PlanCompleted)] else []) @
         [(''s1'', Complete (Some 0) (if ex then PlanExhausted else ExitSignalReceived) n),
          (''s1'', SessionEnd (Some 0))] \<and>
       outputBuffers s2 ''s1'' = None \<and> sessionConfigs s2 ''s1'' = None \<and>
       iterationCounts s2 ''s1'' = None \<and> claudeSessionIds s2 ''s1'' = None \<and>
       shouldContinueLoop s2 ''s1'' = None \<and> exitSignalReceived s2 ''s1'' = None \<and>
       currentBranches s2 ''s1'' = None \<and> reviewInProgress s2 ''s1'' = None \<and>
       e2eInProgress s2 ''s1'' = None \<and>
       s2 = (cleanupSession ''s1'' s1)\<lparr>emitted := emitted s2\<rparr>) \<and>
   sessionConfigs
     (foldl (\<lambda>st chunk. stdout_data sample_js ''s1'' chunk st)
        (handleRalphStatus ''s1'' exit_status started) [''bye\<newline>'']) ''s1'' = Some sample_config"
proof -
  have h: "exitSignal exit_status"
    by (simp add: exit_status_def)
  have c: "sessionConfigs
     (foldl (\<lambda>st chunk. stdout_data sample_js ''s1'' chunk st)
        (handleRalphStatus ''s1'' exit_status started) [''bye\<newline>'']) ''s1'' = Some sample_config"
    by (simp add: run_defs)
  from exit_signal_then_zero_exit_stops[OF h] show ?thesis
    using h c by blast
qed

text \<open>
  C1 as stated fails on the reason: the plan of this session has no open item, the status
  block of its output line sets the exit signal, the process exits with code 0, and the
  one \<^verbatim>\<open>complete\<close> event gives the exhausted plan as its reason.
\<close>

theorem exit_signal_reason_counterexample:
  "exitSignalReceived
     (stdout_data sample_js ''s1''
        ''RALPH_STATUS: EXIT_SIGNAL: true, NOTES: \"finalized\"\<newline>'' started_done) ''s1'' = Some True \<and>
   stop_reasons
     (on_close sample_host ''s1'' (Some 0)
        (stdout_data sample_js ''s1''
           ''RALPH_STATUS: EXIT_SIGNAL: true, NOTES: \"finalized\"\<newline>'' started_done)) =
   [PlanExhausted]"
  by (simp add: run_defs)

subsection \<open>A running session is not started again\<close>

text \<open>
  C2. \<^verbatim>\<open>startLoop\<close> for a session that has a process throws, and the state it leaves is
  the state it found: no map of the manager changed, nothing was spawned or emitted.
  A call that succeeds found no process for the session and spawned exactly one, the
  process that the session has afterwards.
\<close>

theorem startLoop_rejects_running_session:
  "(processes s (sessionId config) \<noteq> None \<longrightarrow>
      startLoop h config s =
        (Inl (Error (''Session '' @ sessionId config @ '' is already running'')), s)) \<and>
   (\<forall>s'. startLoop h config s = (Inr (), s') \<longrightarrow>
      processes s (sessionId config) = None \<and>
      processes s' (sessionId config) = Some (length (spawned s)) \<and>
      length (spawned s') = Suc (length (spawned s)))"
  by (auto simp: startLoop_def Let_def spawn_def emitEvent_def split: if_splits option.splits)

theorem startLoop_rejects_running_session_witness:
  "processes started (sessionId sample_config) \<noteq> None \<and>
   startLoop sample_host sample_config started =
     (Inl (Error (''Session '' @ sessionId sample_config @ '' is already running'')), started)"
proof -
  have running: "processes started (sessionId sample_config) \<noteq> None"
    by (simp add: run_defs)
  with startLoop_rejects_running_session[of started sample_config sample_host]
  show ?thesis by blast
qed

subsection \<open>Stopping\<close>

lemma cleanup_after_mark:
  "processes s sid = None \<Longrightarrow>
   cleanupSession sid (mark_stopped sid (cleanupSession sid (mark_stopped sid s))) =
   cleanupSession sid (mark_stopped sid s)"
  by (simp add: cleanupSession_def mark_stopped_def)

lemma stopLoop_flag: "shouldContinueLoop (snd (stopLoop sid s)) sid \<noteq> Some True"
  by (simp add: stopLoop_def terminate_def mark_stopped_def cleanupSession_def
        split: option.splits)

lemma restart_needs_flag:
  "shouldContinueLoop s sid \<noteq> Some True \<Longrightarrow> restart_after_delay h sid config s = s"
  by (simp add: restart_after_delay_def)

lemma no_restart_without_flag:
  "shouldContinueLoop s sid \<noteq> Some True \<Longrightarrow>
   fst (close_decide h sid code (fst (close_begin sid s)) (snd (close_begin sid s))) = None"
  by (simp add: close_decide_def close_begin_def will_restart_def Let_def)

text \<open>
  C7. \<^verbatim>\<open>stopLoop\<close> returns for every session and state, with \<^verbatim>\<open>true\<close> exactly when a
  process was attached. It is the termination step run on the state in which the flag is
  already false and no signal has been sent yet. After one call and after two the flag
  of the session is not true; the second call changes nothing but the signal and the timer
  that it adds when a process is attached. In the state after the call a restart that
  waits for its delay does nothing, and a \<^verbatim>\<open>close\<close> handler that starts there does not
  take the restart branch. (A continuation after an automatic review starts another
  cycle and is no restart.)
\<close>

theorem stopLoop_idempotent_no_restart:
  "stopLoop sid s = terminate sid (mark_stopped sid s) \<and>
   shouldContinueLoop (mark_stopped sid s) sid = Some False \<and>
   signals (mark_stopped sid s) = signals s \<and>
   fst (stopLoop sid s) = (processes s sid \<noteq> None) \<and>
   (let s1 = snd (stopLoop sid s); s2 = snd (stopLoop sid s1)
    in shouldContinueLoop s1 sid \<noteq> Some True \<and>
       shouldContinueLoop s2 sid \<noteq> Some True \<and>
       s2 = (case processes s sid of
               None \<Rightarrow> s1
             | Some p \<Rightarrow> s1\<lparr>signals := signals s1 @ [(p, SIGTERM)],
                            kill_timers := kill_timers s1 @ [(sid, p)]\<rparr>) \<and>
       (\<forall>h config. restart_after_delay h sid config s1 = s1) \<and>
       (\<forall>h code.
          fst (close_decide h sid code (fst (close_begin sid s1)) (snd (close_begin sid s1))) = None))"
proof -
  define s1 where "s1 = snd (stopLoop sid s)"
  define s2 where "s2 = snd (stopLoop sid s1)"
  have f1: "shouldContinueLoop s1 sid \<noteq> Some True"
    unfolding s1_def by (rule stopLoop_flag)
  have f2: "shouldContinueLoop s2 sid \<noteq> Some True"
    unfolding s2_def by (rule stopLoop_flag)
  have twice: "s2 = (case processes s sid of
               None \<Rightarrow> s1
             | Some p \<Rightarrow> s1\<lparr>signals := signals s1 @ [(p, SIGTERM)],
                            kill_timers := kill_timers s1 @ [(sid, p)]\<rparr>)"
  proof (cases "processes s sid")
    case None
    then show ?thesis
      unfolding s2_def s1_def
      by (simp add: stopLoop_def terminate_def mark_stopped_def cleanupSession_def)
  next
    case (Some p)
    then show ?thesis
      unfolding s2_def s1_def
      by (simp add: stopLoop_def terminate_def mark_stopped_def)
  qed
  have "stopLoop sid s = terminate sid (mark_stopped sid s)"
    by (simp add: stopLoop_def)
  moreover have "shouldContinueLoop (mark_stopped sid s) sid = Some False"
    by (simp add: mark_stopped_def)
  moreover have "signals (mark_stopped sid s) = signals s"
    by (simp add: mark_stopped_def)
  moreover have "fst (stopLoop sid s) = (processes s sid \<noteq> None)"
    by (simp add: stopLoop_def terminate_def mark_stopped_def split: option.splits)
  ultimately show ?thesis
    using f1 f2 twice restart_needs_flag[OF f1] no_restart_without_flag[OF f1]
    unfolding Let_def s1_def[symmetric] s2_def[symmetric] by blast
qed

theorem stopLoop_idempotent_no_restart_witness:
  "fst (stopLoop ''s1'' started) \<and> \<not> fst (stopLoop ''s1'' (fresh open_plan)) \<and>
   signals (snd (stopLoop ''s1'' (snd (stopLoop ''s1'' started)))) = [(0, SIGTERM), (0, SIGTERM)] \<and>
   snd (stopLoop ''s1'' (snd (stopLoop ''s1'' (fresh open_plan)))) = snd (stopLoop ''s1'' (fresh open_plan)) \<and>
   on_close sample_host ''s1'' (Some 0) (snd (stopLoop ''s1'' started)) =
     close_finish sample_host ''s1'' (Some 0)
       (fst (close_begin ''s1'' (snd (stopLoop ''s1'' started))))
       (snd (close_begin ''s1'' (snd (stopLoop ''s1'' started))))"
proof -
  note t = stopLoop_idempotent_no_restart[of "''s1''" started]
  note u = stopLoop_idempotent_no_restart[of "''s1''" "fresh open_plan"]
  have p: "processes started ''s1'' = Some 0"
    by (simp add: run_defs)
  have q: "processes (fresh open_plan) ''s1'' = None"
    by (simp add: fresh_def)
  have sg: "signals (snd (stopLoop ''s1'' started)) = [(0, SIGTERM)]"
    by (simp add: stopLoop_def terminate_def mark_stopped_def p) (simp add: run_defs)
  from t have t4: "fst (stopLoop ''s1'' started) = (processes started ''s1'' \<noteq> None)"
    by blast
  from u have u4: "fst (stopLoop ''s1'' (fresh open_plan)) = (processes (fresh open_plan) ''s1'' \<noteq> None)"
    by blast
  from t have t5: "snd (stopLoop ''s1'' (snd (stopLoop ''s1'' started))) =
      (case processes started ''s1'' of
         None \<Rightarrow> snd (stopLoop ''s1'' started)
       | Some p \<Rightarrow> (snd (stopLoop ''s1'' started))
           \<lparr>signals := signals (snd (stopLoop ''s1'' started)) @ [(p, SIGTERM)],
            kill_timers := kill_timers (snd (stopLoop ''s1'' started)) @ [(''s1'', p)]\<rparr>)"
    unfolding Let_def by blast
  from u have u5: "snd (stopLoop ''s1'' (snd (stopLoop ''s1'' (fresh open_plan)))) =
      (case processes (fresh open_plan) ''s1'' of
         None \<Rightarrow> snd (stopLoop ''s1'' (fresh open_plan))
       | Some p \<Rightarrow> (snd (stopLoop ''s1'' (fresh open_plan)))
           \<lparr>signals := signals (snd (stopLoop ''s1'' (fresh open_plan))) @ [(p, SIGTERM)],
            kill_timers := kill_timers (snd (stopLoop ''s1'' (fresh open_plan))) @ [(''s1'', p)]\<rparr>)"
    unfolding Let_def by blast
  from t have n: "fst (close_decide sample_host ''s1'' (Some 0)
        (fst (close_begin ''s1'' (snd (stopLoop ''s1'' started))))
        (snd (close_begin ''s1'' (snd (stopLoop ''s1'' started))))) = None"
    unfolding Let_def by blast
  have "fst (stopLoop ''s1'' started)"
    using t4 p by simp
  moreover have "\<not> fst (stopLoop ''s1'' (fresh open_plan))"
    using u4 q by simp
  moreover have "signals (snd (stopLoop ''s1'' (snd (stopLoop ''s1'' started)))) =
      [(0, SIGTERM), (0, SIGTERM)]"
    by (simp add: t5 p sg)
  moreover have "snd (stopLoop ''s1'' (snd (stopLoop ''s1'' (fresh open_plan)))) =
      snd (stopLoop ''s1'' (fresh open_plan))"
    by (simp add: u5 q)
  moreover have "on_close sample_host ''s1'' (Some 0) (snd (stopLoop ''s1'' started)) =
     close_finish sample_host ''s1'' (Some 0)
       (fst (close_begin ''s1'' (snd (stopLoop ''s1'' started))))
       (snd (close_begin ''s1'' (snd (stopLoop ''s1'' started))))"
  proof -
    define snap where "snap = fst (close_begin ''s1'' (snd (stopLoop ''s1'' started)))"
    define c1 where "c1 = snd (close_begin ''s1'' (snd (stopLoop ''s1'' started)))"
    from t have fl: "shouldContinueLoop (snd (stopLoop ''s1'' started)) ''s1'' \<noteq> Some True"
      unfolding Let_def by blast
    have w: "\<not> will_restart (Some 0) snap c1"
      unfolding snap_def using fl by (simp add: will_restart_def close_begin_def Let_def)
    have pe: "\<not> planExhausted snap c1"
      unfolding snap_def c1_def
      by (simp add: close_begin_def stopLoop_def terminate_def mark_stopped_def p Let_def)
         (simp add: run_defs)
    have "on_close sample_host ''s1'' (Some 0) (snd (stopLoop ''s1'' started)) =
        snd (close_decide sample_host ''s1'' (Some 0) snap c1)"
      using n unfolding snap_def[symmetric] c1_def[symmetric]
      by (simp add: on_close_def split_beta snap_def c1_def split: prod.splits option.splits)
    also have "\<dots> = close_finish sample_host ''s1'' (Some 0) snap c1"
      using w pe by (simp add: close_decide_def Let_def)
    finally show ?thesis
      unfolding snap_def c1_def .
  qed
  ultimately show ?thesis by blast
qed

subsection \<open>The cached review result\<close>

lemma writeFile_frame:
  "writeFile h p c s = Inr s' \<Longrightarrow>
   latestReviewResults s' = latestReviewResults s \<and> reviewInProgress s' = reviewInProgress s"
  by (auto simp: writeFile_def split: option.splits)

lemma review_process_frame:
  "review_process h rc s = (r, s') \<Longrightarrow>
   latestReviewResults s' = latestReviewResults s \<and> reviewInProgress s' = reviewInProgress s"
  by (auto simp: review_process_def spawn_def Let_def split: review_run.splits)

lemma handleRalphStatus_keeps_reviews:
  "latestReviewResults (handleRalphStatus sid st s) = latestReviewResults s"
  by (simp add: handleRalphStatus_def emitEvent_def Let_def)

lemma raw_line_keeps_reviews:
  "latestReviewResults (raw_line sid line s) = latestReviewResults s"
  by (simp add: raw_line_def emitEvent_def Let_def handleRalphStatus_keeps_reviews
        split: option.splits)

lemma handle_line_keeps_reviews:
  "latestReviewResults (handle_line j sid line s) = latestReviewResults s"
  unfolding handle_line_def Let_def
  by (simp add: emitEvent_def raw_line_keeps_reviews handleRalphStatus_keeps_reviews
        split: option.splits sum.splits jsval.splits)

lemma lines_keep_reviews:
  "latestReviewResults (foldl (\<lambda>st line. handle_line j sid line st) s ls) =
   latestReviewResults s"
  by (induction ls arbitrary: s) (simp_all add: handle_line_keeps_reviews)

lemma stdout_data_keeps_reviews:
  "latestReviewResults (stdout_data j sid text s) = latestReviewResults s"
  by (simp add: stdout_data_def Let_def lines_keep_reviews)

lemma review_try_caches:
  assumes "review_try h rc s = (res, s')"
  shows "(case res of
            Inr r \<Rightarrow> latestReviewResults s' = (latestReviewResults s)(rc_sessionId rc \<mapsto> r)
          | Inl e \<Rightarrow> latestReviewResults s' = latestReviewResults s)"
proof (cases "writeFile h (path_join (rc_projectPath rc) ''PROMPT_review.md'')
                (generateReviewPromptMd h (basename h (rc_projectPath rc))) s")
  case (Inl e)
  with assms show ?thesis
    by (auto simp: review_try_def Let_def)
next
  case (Inr s1)
  note w1 = this
  obtain out s2 where rp: "review_process h rc s1 = (out, s2)"
    by (cases "review_process h rc s1")
  have l2: "latestReviewResults s2 = latestReviewResults s"
    using writeFile_frame[OF w1] review_process_frame[OF rp] by simp
  show ?thesis
  proof (cases out)
    case (Inl e)
    with assms w1 rp l2 show ?thesis
      by (auto simp: review_try_def Let_def)
  next
    case (Inr outp)
    note o = this
    show ?thesis
    proof (cases "writeFile h (path_join (rc_projectPath rc) ''.review-debug-output.txt'') outp s2")
      case (Inl e)
      with assms w1 rp l2 o show ?thesis
        by (auto simp: review_try_def Let_def)
    next
      case (Inr s3)
      note w3 = this
      have l3: "latestReviewResults s3 = latestReviewResults s"
        using writeFile_frame[OF w3] l2 by simp
      show ?thesis
        using assms w1 rp o w3 l3
        by (auto simp: review_try_def Let_def emitEvent_def split: sum.splits option.splits)
    qed
  qed
qed

lemma review_catch_caches:
  "review_catch h sid e s = (r, s') \<Longrightarrow>
   latestReviewResults s' = (latestReviewResults s)(sid \<mapsto> r)"
  by (auto simp: review_catch_def Let_def emitEvent_def)

lemma runAutoReview_caches:
  assumes "reviewInProgress s (rc_sessionId rc) \<noteq> Some True"
    and "existsSync s (path_join (rc_projectPath rc) ''IMPLEMENTATION_PLAN.md'')"
  shows "\<exists>r s'. runAutoReview h rc s = (Inr r, s') \<and>
           latestReviewResults s' = (latestReviewResults s)(rc_sessionId rc \<mapsto> r)"
proof -
  define s2 where "s2 = emitEvent (rc_sessionId rc) (System ReviewStarting)
      (emitEvent (rc_sessionId rc) ReviewStart
        (s\<lparr>reviewInProgress := (reviewInProgress s)(rc_sessionId rc \<mapsto> True)\<rparr>))"
  have l2: "latestReviewResults s2 = latestReviewResults s"
    by (simp add: s2_def emitEvent_def)
  obtain res s3 where rt: "review_try h rc s2 = (res, s3)"
    by (cases "review_try h rc s2")
  note c = review_try_caches[OF rt]
  show ?thesis
  proof (cases res)
    case (Inr r)
    with c l2 rt assms show ?thesis
      by (simp add: runAutoReview_def Let_def s2_def[symmetric])
  next
    case (Inl e)
    obtain r s4 where rcatch: "review_catch h (rc_sessionId rc) e s3 = (r, s4)"
      by (cases "review_catch h (rc_sessionId rc) e s3")
    from review_catch_caches[OF rcatch] Inl c l2 rt rcatch assms show ?thesis
      by (simp add: runAutoReview_def Let_def s2_def[symmetric])
  qed
qed

text \<open>
  C9, as amended. Cleaning a session up leaves the cached review results as they are, and
  so do starting a loop, stopping it, the output handlers and the forced kill. A review
  run that finds no review in progress and the plan in place returns a result and leaves
  exactly that result cached for its session.
\<close>

theorem review_result_cached_until_overwritten:
  "latestReviewResults (cleanupSession sid s) = latestReviewResults s \<and>
   latestReviewResults (snd (startLoop h config s)) = latestReviewResults s \<and>
   latestReviewResults (snd (stopLoop sid s)) = latestReviewResults s \<and>
   latestReviewResults (force_kill sid p s) = latestReviewResults s \<and>
   latestReviewResults (stderr_data sid message s) = latestReviewResults s \<and>
   latestReviewResults (stdout_data j sid chunk s) = latestReviewResults s \<and>
   (reviewInProgress s (rc_sessionId rc) \<noteq> Some True \<and>
    existsSync s (path_join (rc_projectPath rc) ''IMPLEMENTATION_PLAN.md'') \<longrightarrow>
      (\<exists>r s'. runAutoReview h rc s = (Inr r, s') \<and>
         latestReviewResults s' = (latestReviewResults s)(rc_sessionId rc \<mapsto> r)))"
proof -
  have "latestReviewResults (cleanupSession sid s) = latestReviewResults s"
    by (simp add: cleanupSession_def)
  moreover have "latestReviewResults (snd (startLoop h config s)) = latestReviewResults s"
    by (simp add: startLoop_def Let_def spawn_def emitEvent_def split: option.splits)
  moreover have "latestReviewResults (snd (stopLoop sid s)) = latestReviewResults s"
    by (simp add: stopLoop_def terminate_def mark_stopped_def cleanupSession_def
          split: option.splits)
  moreover have "latestReviewResults (force_kill sid p s) = latestReviewResults s"
    by (simp add: force_kill_def)
  moreover have "latestReviewResults (stderr_data sid message s) = latestReviewResults s"
    by (simp add: stderr_data_def emitEvent_def)
  moreover note stdout_data_keeps_reviews[of j sid chunk s]
  ultimately show ?thesis
    using runAutoReview_caches[of s rc h] by blast
qed

lemmas review_defs =
  runAutoReview_def review_try_def review_catch_def review_process_def review_close_def
  review_command_def writeFile_def set_field_def createErrorReviewResult_def
  parseReviewOutput_def json_code_block_def raw_json_match_def extractPartialReview_def
  partial_status_def partial_score_def partial_summary_def normalizeReviewResult_def
  with_stamp_def default_setup_def opt_cls_def cls_def is_quote_def is_colon_eq_def
  is_digit_def word_ci_def upper_ascii_def parseInt_def digits_val_def digit_val_def
  js_or_def code_text_def sample_review_def reviewed_def

theorem review_result_cached_until_overwritten_witness:
  "reviewInProgress (fresh open_plan) (rc_sessionId sample_review) \<noteq> Some True \<and>
   existsSync (fresh open_plan) (path_join (rc_projectPath sample_review) ''IMPLEMENTATION_PLAN.md'') \<and>
   latestReviewResults (cleanupSession ''s1'' reviewed) = latestReviewResults reviewed \<and>
   (\<exists>r s'. runAutoReview sample_host sample_review (fresh open_plan) = (Inr r, s') \<and>
      latestReviewResults s' =
        (latestReviewResults (fresh open_plan))(rc_sessionId sample_review \<mapsto> r))"
proof -
  have a: "reviewInProgress (fresh open_plan) (rc_sessionId sample_review) \<noteq> Some True"
    by (simp add: fresh_def)
  have b: "existsSync (fresh open_plan)
      (path_join (rc_projectPath sample_review) ''IMPLEMENTATION_PLAN.md'')"
    by (simp add: fresh_def open_plan_def existsSync_def path_join_def sample_review_def)
  from review_result_cached_until_overwritten[where sid = "''s1''" and s = reviewed]
       review_result_cached_until_overwritten
         [where s = "fresh open_plan" and rc = sample_review and h = sample_host]
  show ?thesis
    using a b by blast
qed

text \<open>
  C9 as stated fails: the review of the sample project left a result for the session, and
  the result is still there after the session was cleaned up.
\<close>

theorem cleanup_keeps_review_counterexample:
  "map_option (\<lambda>r. (opt_prop r ''reviewStatus'', opt_prop r ''overallScore''))
     (latestReviewResults (cleanupSession ''s1'' reviewed) ''s1'') =
   Some (JStr ''ERROR'', JNum 150)"
  by (simp add: cleanupSession_def) (simp add: review_defs run_defs)

subsection \<open>The exit code of the review subprocess\<close>

lemma review_process_nonzero_output:
  "stdout \<noteq> [] \<Longrightarrow>
   review_process (h\<lparr>review_outcome := Closed code stdout stderr\<rparr>) rc s =
   review_process (h\<lparr>review_outcome := Closed (Some 0) stdout stderr\<rparr>) rc s"
  by (simp add: review_process_def review_close_def spawn_def review_command_def Let_def)

lemma review_try_nonzero_output:
  "stdout \<noteq> [] \<Longrightarrow>
   review_try (h\<lparr>review_outcome := Closed code stdout stderr\<rparr>) rc s =
   review_try (h\<lparr>review_outcome := Closed (Some 0) stdout stderr\<rparr>) rc s"
  unfolding review_try_def Let_def
  by (simp add: review_process_nonzero_output[where stdout = stdout and h = h and code = code and stderr = stderr] writeFile_def
        cong: sum.case_cong option.case_cong prod.case_cong)

lemma runAutoReview_nonzero_output:
  "stdout \<noteq> [] \<Longrightarrow>
   runAutoReview (h\<lparr>review_outcome := Closed code stdout stderr\<rparr>) rc s =
   runAutoReview (h\<lparr>review_outcome := Closed (Some 0) stdout stderr\<rparr>) rc s"
  unfolding runAutoReview_def Let_def
  by (simp add: review_try_nonzero_output[where stdout = stdout and h = h and code = code and stderr = stderr] review_catch_def
        cong: sum.case_cong option.case_cong prod.case_cong if_cong)

lemma runAutoReview_nonzero_silent:
  assumes "code \<noteq> Some 0"
    and "reviewInProgress s (rc_sessionId rc) \<noteq> Some True"
    and "existsSync s (path_join (rc_projectPath rc) ''IMPLEMENTATION_PLAN.md'')"
    and "write_error h (path_join (rc_projectPath rc) ''PROMPT_review.md'') = None"
  shows "fst (runAutoReview (h\<lparr>review_outcome := Closed code [] stderr\<rparr>) rc s) =
     Inr (set_field ''reviewDurationMs'' (JNum (review_elapsed h))
            (createErrorReviewResult (js h)
               (''Review process exited with code '' @ code_text (js h) code @ '': '' @ stderr)
               (JStr [])))"
proof -
  obtain fe where ex: "files s (path_join (rc_projectPath rc) ''IMPLEMENTATION_PLAN.md'') = Some fe"
    using assms(3) by (auto simp: existsSync_def)
  show ?thesis
    using assms(1,2,4)
    by (simp add: ex add: runAutoReview_def review_try_def review_process_def review_close_def
          review_catch_def writeFile_def spawn_def emitEvent_def Let_def existsSync_def
          split_beta)
qed

lemma review_try_resolved:
  assumes "code = Some 0 \<or> stdout \<noteq> []"
    and "write_error h (path_join (rc_projectPath rc) ''PROMPT_review.md'') = None"
    and "write_error h (path_join (rc_projectPath rc) ''.review-debug-output.txt'') = None"
  shows "\<exists>s3. latestReviewResults s3 = latestReviewResults s \<and>
          review_try (h\<lparr>review_outcome := Closed code stdout stderr\<rparr>) rc s =
          (case parseReviewOutput (js h) (stdout @ stderr) of
             Inl e \<Rightarrow> (Inl e, s3)
           | Inr None \<Rightarrow>
               (let errorResult =
                      set_field ''reviewDurationMs'' (JNum (review_elapsed h))
                        (createErrorReviewResult (js h) ''Failed to parse review output''
                           (JStr (stdout @ stderr)));
                    s4 = s3\<lparr>latestReviewResults :=
                              (latestReviewResults s3)(rc_sessionId rc \<mapsto> errorResult)\<rparr>
                in (Inr errorResult, emitEvent (rc_sessionId rc) (ReviewComplete errorResult) s4))
           | Inr (Some parsed) \<Rightarrow>
               (let reviewResult =
                      set_field ''reviewDurationMs'' (JNum (review_elapsed h)) parsed;
                    s4 = s3\<lparr>latestReviewResults :=
                              (latestReviewResults s3)(rc_sessionId rc \<mapsto> reviewResult)\<rparr>;
                    s5 = emitEvent (rc_sessionId rc)
                           (System (ReviewCompleted (opt_prop reviewResult ''reviewStatus'')
                              (opt_prop reviewResult ''overallScore''))) s4
                in (Inr reviewResult, emitEvent (rc_sessionId rc) (ReviewComplete reviewResult) s5)))"
proof -
  define h' where "h' = h\<lparr>review_outcome := Closed code stdout stderr\<rparr>"
  define dir where "dir = rc_projectPath rc"
  have hs: "js h' = js h" "review_elapsed h' = review_elapsed h" "write_error h' = write_error h"
    "review_outcome h' = Closed code stdout stderr"
    by (simp_all add: h'_def)
  obtain s1 where w1: "writeFile h' (path_join dir ''PROMPT_review.md'')
                (generateReviewPromptMd h' (basename h' dir)) s = Inr s1"
    and l1: "latestReviewResults s1 = latestReviewResults s"
    using assms(2) by (simp add: writeFile_def hs dir_def)
  obtain s2 where rp: "review_process h' rc s1 = (Inr (stdout @ stderr), s2)"
    and l2: "latestReviewResults s2 = latestReviewResults s1"
    using assms(1) by (simp add: review_process_def review_close_def spawn_def Let_def hs)
  obtain s3 where w3: "writeFile h' (path_join dir ''.review-debug-output.txt'') (stdout @ stderr) s2 = Inr s3"
    and l3: "latestReviewResults s3 = latestReviewResults s2"
    using assms(3) by (simp add: writeFile_def hs dir_def)
  have "review_try h' rc s =
          (case parseReviewOutput (js h) (stdout @ stderr) of
             Inl e \<Rightarrow> (Inl e, s3)
           | Inr None \<Rightarrow>
               (let errorResult =
                      set_field ''reviewDurationMs'' (JNum (review_elapsed h))
                        (createErrorReviewResult (js h) ''Failed to parse review output''
                           (JStr (stdout @ stderr)));
                    s4 = s3\<lparr>latestReviewResults :=
                              (latestReviewResults s3)(rc_sessionId rc \<mapsto> errorResult)\<rparr>
                in (Inr errorResult, emitEvent (rc_sessionId rc) (ReviewComplete errorResult) s4))
           | Inr (Some parsed) \<Rightarrow>
               (let reviewResult =
                      set_field ''reviewDurationMs'' (JNum (review_elapsed h)) parsed;
                    s4 = s3\<lparr>latestReviewResults :=
                              (latestReviewResults s3)(rc_sessionId rc \<mapsto> reviewResult)\<rparr>;
                    s5 = emitEvent (rc_sessionId rc)
                           (System (ReviewCompleted (opt_prop reviewResult ''reviewStatus'')
                              (opt_prop reviewResult ''overallScore''))) s4
                in (Inr reviewResult, emitEvent (rc_sessionId rc) (ReviewComplete reviewResult) s5)))"
    unfolding review_try_def Let_def dir_def[symmetric]
    by (simp add: w1 rp w3 hs split: sum.splits option.splits)
  with l1 l2 l3 show ?thesis
    unfolding h'_def by auto
qed

lemma runAutoReview_resolved:
  assumes "code = Some 0 \<or> stdout \<noteq> []"
    and "reviewInProgress s (rc_sessionId rc) \<noteq> Some True"
    and "existsSync s (path_join (rc_projectPath rc) ''IMPLEMENTATION_PLAN.md'')"
    and "write_error h (path_join (rc_projectPath rc) ''PROMPT_review.md'') = None"
    and "write_error h (path_join (rc_projectPath rc) ''.review-debug-output.txt'') = None"
  shows "\<exists>s'. runAutoReview (h\<lparr>review_outcome := Closed code stdout stderr\<rparr>) rc s =
      (Inr (set_field ''reviewDurationMs'' (JNum (review_elapsed h))
           (case parseReviewOutput (js h) (stdout @ stderr) of
              Inr (Some parsed) \<Rightarrow> parsed
            | Inr None \<Rightarrow>
                createErrorReviewResult (js h) ''Failed to parse review output''
                  (JStr (stdout @ stderr))
            | Inl e \<Rightarrow> createErrorReviewResult (js h) (error_message (js h) e) (JStr []))), s') \<and>
      latestReviewResults s' = (latestReviewResults s)(rc_sessionId rc \<mapsto> 
         set_field ''reviewDurationMs'' (JNum (review_elapsed h))
           (case parseReviewOutput (js h) (stdout @ stderr) of
              Inr (Some parsed) \<Rightarrow> parsed
            | Inr None \<Rightarrow>
                createErrorReviewResult (js h) ''Failed to parse review output''
                  (JStr (stdout @ stderr))
            | Inl e \<Rightarrow> createErrorReviewResult (js h) (error_message (js h) e) (JStr [])))"
proof -
  define h' where "h' = h\<lparr>review_outcome := Closed code stdout stderr\<rparr>"
  have hs: "js h' = js h" "review_elapsed h' = review_elapsed h"
    by (simp_all add: h'_def)
  define s2 where "s2 = emitEvent (rc_sessionId rc) (System ReviewStarting)
      (emitEvent (rc_sessionId rc) ReviewStart
        (s\<lparr>reviewInProgress := (reviewInProgress s)(rc_sessionId rc \<mapsto> True)\<rparr>))"
  have l2: "latestReviewResults s2 = latestReviewResults s"
    by (simp add: s2_def emitEvent_def)
  from review_try_resolved[OF assms(1,4,5), of s2] obtain s3 where
    l3: "latestReviewResults s3 = latestReviewResults s2" and
    rt: "review_try h' rc s2 =
          (case parseReviewOutput (js h) (stdout @ stderr) of
             Inl e \<Rightarrow> (Inl e, s3)
           | Inr None \<Rightarrow>
               (let errorResult =
                      set_field ''reviewDurationMs'' (JNum (review_elapsed h))
                        (createErrorReviewResult (js h) ''Failed to parse review output''
                           (JStr (stdout @ stderr)));
                    s4 = s3\<lparr>latestReviewResults :=
                              (latestReviewResults s3)(rc_sessionId rc \<mapsto> errorResult)\<rparr>
                in (Inr errorResult, emitEvent (rc_sessionId rc) (ReviewComplete errorResult) s4))
           | Inr (Some parsed) \<Rightarrow>
               (let reviewResult =
                      set_field ''reviewDurationMs'' (JNum (review_elapsed h)) parsed;
                    s4 = s3\<lparr>latestReviewResults :=
                              (latestReviewResults s3)(rc_sessionId rc \<mapsto> reviewResult)\<rparr>;
                    s5 = emitEvent (rc_sessionId rc)
                           (System (ReviewCompleted (opt_prop reviewResult ''reviewStatus'')
                              (opt_prop reviewResult ''overallScore''))) s4
                in (Inr reviewResult, emitEvent (rc_sessionId rc) (ReviewComplete reviewResult) s5)))"
    unfolding h'_def by blast
  obtain fe where ex: "files s (path_join (rc_projectPath rc) ''IMPLEMENTATION_PLAN.md'') = Some fe"
    using assms(3) by (auto simp: existsSync_def)
  have run: "runAutoReview h' rc s =
     (let (result, s4) =
                  (case review_try h' rc s2 of
                     (Inr r, s3) \<Rightarrow> (r, s3)
                   | (Inl e, s3) \<Rightarrow> review_catch h' (rc_sessionId rc) e s3)
            in (Inr result, s4\<lparr>reviewInProgress := (reviewInProgress s4)(rc_sessionId rc := None)\<rparr>))"
    using assms(2) by (simp add: runAutoReview_def Let_def s2_def existsSync_def ex)
  show ?thesis
  proof (cases "parseReviewOutput (js h) (stdout @ stderr)")
    case (Inl e)
    show ?thesis
      unfolding h'_def[symmetric] run rt
      by (simp add: Inl review_catch_def Let_def emitEvent_def hs l3 l2)
  next
    case (Inr v)
    show ?thesis
    proof (cases v)
      case None
      show ?thesis
        unfolding h'_def[symmetric] run rt
        by (simp add: Inr None Let_def emitEvent_def l3 l2)
    next
      case (Some parsed)
      show ?thesis
        unfolding h'_def[symmetric] run rt
        by (simp add: Inr Some Let_def emitEvent_def l3 l2)
    qed
  qed
qed

text \<open>
  C10, as amended. When the review subprocess closes with a code other than 0 and its
  standard output is not empty, the promise resolves with the output followed by the error
  output, and the whole review run is the run of exit code 0 on the same output: the same
  result, the same state. A run that passed its guards and wrote its two files hands that
  text to \<^verbatim>\<open>parseReviewOutput\<close>: what the parser returns is the result, with the duration
  set, and is cached for the session; when the parser returns nothing the result is the
  error result of the failed parse, and when it throws, the error result of the
  \<^verbatim>\<open>catch\<close> block, both of status ERROR. The promise rejects exactly when the code is not 0
  and the standard output is empty; the run then returns the error result that names the
  exit code, whose status is ERROR.
\<close>

theorem review_nonzero_exit_with_output:
  "(code \<noteq> Some 0 \<and> stdout \<noteq> [] \<longrightarrow>
      review_close (js h) code stdout stderr = Inr (stdout @ stderr) \<and>
      runAutoReview (h\<lparr>review_outcome := Closed code stdout stderr\<rparr>) rc s =
      runAutoReview (h\<lparr>review_outcome := Closed (Some 0) stdout stderr\<rparr>) rc s) \<and>
   ((code = Some 0 \<or> stdout \<noteq> []) \<and>
    reviewInProgress s (rc_sessionId rc) \<noteq> Some True \<and>
    existsSync s (path_join (rc_projectPath rc) ''IMPLEMENTATION_PLAN.md'') \<and>
    write_error h (path_join (rc_projectPath rc) ''PROMPT_review.md'') = None \<and>
    write_error h (path_join (rc_projectPath rc) ''.review-debug-output.txt'') = None \<longrightarrow>
      (\<exists>r s'. runAutoReview (h\<lparr>review_outcome := Closed code stdout stderr\<rparr>) rc s = (Inr r, s') \<and>
         latestReviewResults s' = (latestReviewResults s)(rc_sessionId rc \<mapsto> r) \<and>
         r = set_field ''reviewDurationMs'' (JNum (review_elapsed h))
               (case parseReviewOutput (js h) (stdout @ stderr) of
                  Inr (Some parsed) \<Rightarrow> parsed
                | Inr None \<Rightarrow>
                    createErrorReviewResult (js h) ''Failed to parse review output''
                      (JStr (stdout @ stderr))
                | Inl e \<Rightarrow> createErrorReviewResult (js h) (error_message (js h) e) (JStr [])) \<and>
         ((\<forall>parsed. parseReviewOutput (js h) (stdout @ stderr) \<noteq> Inr (Some parsed)) \<longrightarrow>
            opt_prop r ''reviewStatus'' = JStr ''ERROR''))) \<and>
   ((\<exists>e. review_close (js h) code stdout stderr = Inl e) \<longleftrightarrow> code \<noteq> Some 0 \<and> stdout = []) \<and>
   (code \<noteq> Some 0 \<and> reviewInProgress s (rc_sessionId rc) \<noteq> Some True \<and>
    existsSync s (path_join (rc_projectPath rc) ''IMPLEMENTATION_PLAN.md'') \<and>
    write_error h (path_join (rc_projectPath rc) ''PROMPT_review.md'') = None \<longrightarrow>
      fst (runAutoReview (h\<lparr>review_outcome := Closed code [] stderr\<rparr>) rc s) =
        Inr (set_field ''reviewDurationMs'' (JNum (review_elapsed h))
               (createErrorReviewResult (js h)
                  (''Review process exited with code '' @ code_text (js h) code @ '': '' @ stderr)
                  (JStr []))) \<and>
      opt_prop (set_field ''reviewDurationMs'' (JNum (review_elapsed h))
               (createErrorReviewResult (js h)
                  (''Review process exited with code '' @ code_text (js h) code @ '': '' @ stderr)
                  (JStr []))) ''reviewStatus'' = JStr ''ERROR'')"
proof -
  have a: "code \<noteq> Some 0 \<and> stdout \<noteq> [] \<longrightarrow>
      review_close (js h) code stdout stderr = Inr (stdout @ stderr) \<and>
      runAutoReview (h\<lparr>review_outcome := Closed code stdout stderr\<rparr>) rc s =
      runAutoReview (h\<lparr>review_outcome := Closed (Some 0) stdout stderr\<rparr>) rc s"
    using runAutoReview_nonzero_output[where stdout = stdout and h = h and code = code and stderr = stderr and rc = rc and s = s]
    by (simp add: review_close_def)
  have b: "(\<exists>e. review_close (js h) code stdout stderr = Inl e) \<longleftrightarrow> code \<noteq> Some 0 \<and> stdout = []"
    by (simp add: review_close_def)
  have c: "opt_prop (set_field ''reviewDurationMs'' (JNum (review_elapsed h))
               (createErrorReviewResult (js h) msg raw)) ''reviewStatus'' = JStr ''ERROR''" for msg raw
    by (simp add: set_field_def createErrorReviewResult_def)
  have d: "(code = Some 0 \<or> stdout \<noteq> []) \<and>
    reviewInProgress s (rc_sessionId rc) \<noteq> Some True \<and>
    existsSync s (path_join (rc_projectPath rc) ''IMPLEMENTATION_PLAN.md'') \<and>
    write_error h (path_join (rc_projectPath rc) ''PROMPT_review.md'') = None \<and>
    write_error h (path_join (rc_projectPath rc) ''.review-debug-output.txt'') = None \<longrightarrow>
      (\<exists>r s'. runAutoReview (h\<lparr>review_outcome := Closed code stdout stderr\<rparr>) rc s = (Inr r, s') \<and>
         latestReviewResults s' = (latestReviewResults s)(rc_sessionId rc \<mapsto> r) \<and>
         r = set_field ''reviewDurationMs'' (JNum (review_elapsed h))
               (case parseReviewOutput (js h) (stdout @ stderr) of
                  Inr (Some parsed) \<Rightarrow> parsed
                | Inr None \<Rightarrow>
                    createErrorReviewResult (js h) ''Failed to parse review output''
                      (JStr (stdout @ stderr))
                | Inl e \<Rightarrow> createErrorReviewResult (js h) (error_message (js h) e) (JStr [])) \<and>
         ((\<forall>parsed. parseReviewOutput (js h) (stdout @ stderr) \<noteq> Inr (Some parsed)) \<longrightarrow>
            opt_prop r ''reviewStatus'' = JStr ''ERROR''))"
  proof (intro impI)
    assume g: "(code = Some 0 \<or> stdout \<noteq> []) \<and>
      reviewInProgress s (rc_sessionId rc) \<noteq> Some True \<and>
      existsSync s (path_join (rc_projectPath rc) ''IMPLEMENTATION_PLAN.md'') \<and>
      write_error h (path_join (rc_projectPath rc) ''PROMPT_review.md'') = None \<and>
      write_error h (path_join (rc_projectPath rc) ''.review-debug-output.txt'') = None"
    define r where "r = set_field ''reviewDurationMs'' (JNum (review_elapsed h))
               (case parseReviewOutput (js h) (stdout @ stderr) of
                  Inr (Some parsed) \<Rightarrow> parsed
                | Inr None \<Rightarrow>
                    createErrorReviewResult (js h) ''Failed to parse review output''
                      (JStr (stdout @ stderr))
                | Inl e \<Rightarrow> createErrorReviewResult (js h) (error_message (js h) e) (JStr []))"
    from g have g1: "code = Some 0 \<or> stdout \<noteq> []"
      and g2: "reviewInProgress s (rc_sessionId rc) \<noteq> Some True"
      and g3: "existsSync s (path_join (rc_projectPath rc) ''IMPLEMENTATION_PLAN.md'')"
      and g4: "write_error h (path_join (rc_projectPath rc) ''PROMPT_review.md'') = None"
      and g5: "write_error h (path_join (rc_projectPath rc) ''.review-debug-output.txt'') = None"
      by simp_all
    from runAutoReview_resolved[OF g1 g2 g3 g4 g5, of stderr, folded r_def]
    obtain s' where run: "runAutoReview (h\<lparr>review_outcome := Closed code stdout stderr\<rparr>) rc s = (Inr r, s')"
      and l: "latestReviewResults s' = (latestReviewResults s)(rc_sessionId rc \<mapsto> r)"
      by (elim exE conjE)
    have e: "opt_prop r ''reviewStatus'' = JStr ''ERROR''"
      if "\<forall>parsed. parseReviewOutput (js h) (stdout @ stderr) \<noteq> Inr (Some parsed)"
      using that unfolding r_def by (simp add: c split: sum.splits option.splits)
    from run l e show "\<exists>r s'. runAutoReview (h\<lparr>review_outcome := Closed code stdout stderr\<rparr>) rc s = (Inr r, s') \<and>
         latestReviewResults s' = (latestReviewResults s)(rc_sessionId rc \<mapsto> r) \<and>
         r = set_field ''reviewDurationMs'' (JNum (review_elapsed h))
               (case parseReviewOutput (js h) (stdout @ stderr) of
                  Inr (Some parsed) \<Rightarrow> parsed
                | Inr None \<Rightarrow>
                    createErrorReviewResult (js h) ''Failed to parse review output''
                      (JStr (stdout @ stderr))
                | Inl e \<Rightarrow> createErrorReviewResult (js h) (error_message (js h) e) (JStr [])) \<and>
         ((\<forall>parsed. parseReviewOutput (js h) (stdout @ stderr) \<noteq> Inr (Some parsed)) \<longrightarrow>
            opt_prop r ''reviewStatus'' = JStr ''ERROR'')"
      using r_def by blast
  qed
  show ?thesis
    using a b c[where raw = "JStr []"] d
      runAutoReview_nonzero_silent[where code = code and s = s and rc = rc and h = h and stderr = stderr]
    by blast
qed

theorem review_nonzero_exit_with_output_witness:
  "Some 1 \<noteq> Some (0::int) \<and> ''reviewStatus: partial, overallScore: 40'' \<noteq> [] \<and>
   reviewInProgress (fresh open_plan) (rc_sessionId sample_review) \<noteq> Some True \<and>
   existsSync (fresh open_plan)
     (path_join (rc_projectPath sample_review) ''IMPLEMENTATION_PLAN.md'') \<and>
   write_error sample_host (path_join (rc_projectPath sample_review) ''PROMPT_review.md'') = None \<and>
   write_error sample_host
     (path_join (rc_projectPath sample_review) ''.review-debug-output.txt'') = None \<and>
   review_close (js sample_host) (Some 1) ''reviewStatus: partial, overallScore: 40'' ''warn'' =
     Inr ''reviewStatus: partial, overallScore: 40warn'' \<and>
   runAutoReview
     (sample_host\<lparr>review_outcome :=
        Closed (Some 1) ''reviewStatus: partial, overallScore: 40'' ''warn''\<rparr>)
     sample_review (fresh open_plan) =
   runAutoReview
     (sample_host\<lparr>review_outcome :=
        Closed (Some 0) ''reviewStatus: partial, overallScore: 40'' ''warn''\<rparr>)
     sample_review (fresh open_plan) \<and>
   (\<exists>r s'. runAutoReview
        (sample_host\<lparr>review_outcome :=
           Closed (Some 1) ''reviewStatus: partial, overallScore: 40'' ''warn''\<rparr>)
        sample_review (fresh open_plan) = (Inr r, s') \<and>
      latestReviewResults s' ''s1'' = Some r \<and>
      opt_prop r ''reviewStatus'' = JStr ''PARTIAL'' \<and> opt_prop r ''overallScore'' = JNum 40 \<and>
      opt_prop r ''rawOutput'' = JStr ''reviewStatus: partial, overallScore: 40warn'' \<and>
      opt_prop r ''reviewDurationMs'' = JNum 5) \<and>
   map_sum id (\<lambda>r. (opt_prop r ''reviewStatus'', opt_prop r ''summary''))
     (fst (runAutoReview (sample_host\<lparr>review_outcome := Closed (Some 1) [] ''boom''\<rparr>)
        sample_review (fresh open_plan))) =
     Inr (JStr ''ERROR'', JStr ''Review failed: Review process exited with code 1: boom'')"
proof -
  have g1: "reviewInProgress (fresh open_plan) (rc_sessionId sample_review) \<noteq> Some True"
    by (simp add: fresh_def)
  have g2: "existsSync (fresh open_plan)
      (path_join (rc_projectPath sample_review) ''IMPLEMENTATION_PLAN.md'')"
    by (simp add: fresh_def open_plan_def existsSync_def path_join_def sample_review_def)
  have g3: "write_error sample_host
      (path_join (rc_projectPath sample_review) ''PROMPT_review.md'') = None"
    by (simp add: sample_host_def)
  have g4: "write_error sample_host
      (path_join (rc_projectPath sample_review) ''.review-debug-output.txt'') = None"
    by (simp add: sample_host_def)
  have n: "Some 1 \<noteq> Some (0::int)" and o: "''reviewStatus: partial, overallScore: 40'' \<noteq> []"
    by simp_all
  note t = review_nonzero_exit_with_output
     [where code = "Some 1" and stdout = "''reviewStatus: partial, overallScore: 40''"
        and stderr = "''warn''" and h = sample_host and rc = sample_review
        and s = "fresh open_plan"]
  note u = review_nonzero_exit_with_output
     [where code = "Some 1" and stderr = "''boom''"
        and h = sample_host and rc = sample_review and s = "fresh open_plan"]
  from t n o have t1:
    "review_close (js sample_host) (Some 1) ''reviewStatus: partial, overallScore: 40'' ''warn'' =
     Inr (''reviewStatus: partial, overallScore: 40'' @ ''warn'')"
    by blast
  from t n o have t2:
    "runAutoReview
       (sample_host\<lparr>review_outcome :=
          Closed (Some 1) ''reviewStatus: partial, overallScore: 40'' ''warn''\<rparr>)
       sample_review (fresh open_plan) =
     runAutoReview
       (sample_host\<lparr>review_outcome :=
          Closed (Some 0) ''reviewStatus: partial, overallScore: 40'' ''warn''\<rparr>)
       sample_review (fresh open_plan)"
    by blast
  define res where "res = set_field ''reviewDurationMs'' (JNum (review_elapsed sample_host))
      (case parseReviewOutput (js sample_host)
              (''reviewStatus: partial, overallScore: 40'' @ ''warn'') of
         Inr (Some parsed) \<Rightarrow> parsed
       | Inr None \<Rightarrow>
           createErrorReviewResult (js sample_host) ''Failed to parse review output''
             (JStr (''reviewStatus: partial, overallScore: 40'' @ ''warn''))
       | Inl e \<Rightarrow>
           createErrorReviewResult (js sample_host) (error_message (js sample_host) e) (JStr []))"
  from t n o g1 g2 g3 g4 obtain s' where
    run: "runAutoReview
        (sample_host\<lparr>review_outcome :=
           Closed (Some 1) ''reviewStatus: partial, overallScore: 40'' ''warn''\<rparr>)
        sample_review (fresh open_plan) = (Inr res, s')"
    and l: "latestReviewResults s' =
        (latestReviewResults (fresh open_plan))(rc_sessionId sample_review \<mapsto> res)"
    unfolding res_def by blast
  from l have l': "latestReviewResults s' ''s1'' = Some res"
    by (simp add: sample_review_def)
  have v: "opt_prop res ''reviewStatus'' = JStr ''PARTIAL''"
    "opt_prop res ''overallScore'' = JNum 40"
    "opt_prop res ''rawOutput'' = JStr ''reviewStatus: partial, overallScore: 40warn''"
    "opt_prop res ''reviewDurationMs'' = JNum 5"
    unfolding res_def by (simp_all add: review_defs run_defs toUpperCase_def is_ascii_def)
  from u n g1 g2 g3 have u1:
    "fst (runAutoReview (sample_host\<lparr>review_outcome := Closed (Some 1) [] ''boom''\<rparr>)
        sample_review (fresh open_plan)) =
     Inr (set_field ''reviewDurationMs'' (JNum (review_elapsed sample_host))
            (createErrorReviewResult (js sample_host)
               (''Review process exited with code '' @ code_text (js sample_host) (Some 1) @
                '': '' @ ''boom'') (JStr [])))"
    by blast
  have u2: "map_sum id (\<lambda>r. (opt_prop r ''reviewStatus'', opt_prop r ''summary''))
     (fst (runAutoReview (sample_host\<lparr>review_outcome := Closed (Some 1) [] ''boom''\<rparr>)
        sample_review (fresh open_plan))) =
     Inr (JStr ''ERROR'', JStr ''Review failed: Review process exited with code 1: boom'')"
    unfolding u1
    by (simp add: set_field_def createErrorReviewResult_def code_text_def sample_host_def
          sample_js_def)
  from t1 have t1':
    "review_close (js sample_host) (Some 1) ''reviewStatus: partial, overallScore: 40'' ''warn'' =
     Inr ''reviewStatus: partial, overallScore: 40warn''"
    by simp
  show ?thesis
    using n o t1' t2 g1 g2 g3 g4 u2 run l' v by blast
qed

text \<open>
  C10 as stated fails on the result: this review subprocess exits with code 1 after it
  wrote to its standard output, the parser finds nothing in the text, and the run returns
  the error result of the failed parse, of status ERROR; so does the same output with
  exit code 0.
\<close>

theorem review_unparsable_output_counterexample:
  "map_sum id (\<lambda>r. (opt_prop r ''reviewStatus'', opt_prop r ''summary''))
     (fst (runAutoReview
             (sample_host\<lparr>review_outcome := Closed (Some 1) ''Segmentation fault'' []\<rparr>)
             sample_review (fresh open_plan))) =
     Inr (JStr ''ERROR'', JStr ''Review failed: Failed to parse review output'') \<and>
   map_sum id (\<lambda>r. (opt_prop r ''reviewStatus'', opt_prop r ''summary''))
     (fst (runAutoReview
             (sample_host\<lparr>review_outcome := Closed (Some 0) ''Segmentation fault'' []\<rparr>)
             sample_review (fresh open_plan))) =
     Inr (JStr ''ERROR'', JStr ''Review failed: Failed to parse review output'')"
  by (simp add: review_defs run_defs)

subsection \<open>The iteration cap\<close>

lemma stop_reasons_append:
  "stop_reasons (s\<lparr>emitted := emitted s @ evs\<rparr>) =
   stop_reasons s @ List.map_filter (\<lambda>(sid, ev). complete_of ev) evs"
  by (simp add: stop_reasons_def List.map_filter_def)

text \<open>A start that passes its two checks.\<close>

lemma startLoop_succeeds:
  assumes "processes s (sessionId c) = None"
    and "existsSync s (path_join (projectPath c) (promptFile c))"
  shows "fst (startLoop h c s) = Inr ()"
    and "sessionConfigs (snd (startLoop h c s)) (sessionId c) = Some c"
    and "shouldContinueLoop (snd (startLoop h c s)) (sessionId c) = Some True"
    and "exitSignalReceived (snd (startLoop h c s)) (sessionId c) = Some False"
    and "files (snd (startLoop h c s)) = files s"
    and "iterationCounts (snd (startLoop h c s)) (sessionId c) =
           Some (case iterationCounts s (sessionId c) of Some n \<Rightarrow> n | None \<Rightarrow> 0)"
    and "processes (snd (startLoop h c s)) (sessionId c) = Some (length (spawned s))"
    and "length (spawned (snd (startLoop h c s))) = Suc (length (spawned s))"
    and "stop_reasons (snd (startLoop h c s)) = stop_reasons s"
  using assms
  by (simp_all add: startLoop_def Let_def split_beta spawn_def emitEvent_def stop_reasons_def
        List.map_filter_def split: option.splits)

text \<open>
  One exit with code 0 of a session that goes on: no exit signal, an open item in the plan,
  the prompt in place, no automatic push, and a counter below the cap.
\<close>

lemma on_close_restarts:
  assumes cfg: "sessionConfigs s sid = Some c" "sessionId c = sid"
    and flags: "shouldContinueLoop s sid = Some True" "exitSignalReceived s sid \<noteq> Some True"
    and plan: "\<not> checkPlanExhausted s (projectPath c)"
    and prompt: "existsSync s (path_join (projectPath c) (promptFile c))"
    and push: "autoPush c \<noteq> Some True"
    and count: "iterationCounts s sid = Some n" "maxIterations c = Some m" "int n < m"
  shows "sessionConfigs (on_close h sid (Some 0) s) sid = Some c \<and>
         shouldContinueLoop (on_close h sid (Some 0) s) sid = Some True \<and>
         exitSignalReceived (on_close h sid (Some 0) s) sid \<noteq> Some True \<and>
         files (on_close h sid (Some 0) s) = files s \<and>
         iterationCounts (on_close h sid (Some 0) s) sid = Some (Suc n) \<and>
         processes (on_close h sid (Some 0) s) sid = Some (length (spawned s)) \<and>
         length (spawned (on_close h sid (Some 0) s)) = Suc (length (spawned s)) \<and>
         stop_reasons (on_close h sid (Some 0) s) = stop_reasons s"
proof -
  define s1 where "s1 = s\<lparr>processes := (processes s)(sid := None),
                         outputBuffers := (outputBuffers s)(sid := None)\<rparr>"
  define snap where "snap = \<lparr>snap_config = Some c, snap_shouldContinue = Some True,
      snap_exitSignal = exitSignalReceived s sid, snap_currentIteration = n\<rparr>"
  have cb: "close_begin sid s = (snap, s1)"
    by (simp add: close_begin_def Let_def snap_def s1_def cfg flags count)
  have pe: "\<not> planExhausted snap s1"
    using plan by (simp add: planExhausted_def snap_def s1_def checkPlanExhausted_def readFile_def)
  have mr: "\<not> maxReached snap"
    using count by (simp add: maxReached_def snap_def)
  have wr: "will_restart (Some 0) snap s1"
    using pe mr flags by (simp add: will_restart_def snap_def)
  define s2 where "s2 = restart_prepare h sid c n s1"
  have cd: "close_decide h sid (Some 0) snap s1 = (Some c, s2)"
    using wr pe by (simp add: close_decide_def Let_def snap_def s2_def)
  have s2_eq: "s2 = s1\<lparr>iterationCounts := (iterationCounts s1)(sid \<mapsto> Suc n),
                       emitted := emitted s1 @ [(sid, IterationUpdate (Suc n) (maxIterations c)),
                                               (sid, System (IterationBanner (Suc n)))]\<rparr>"
    using push by (simp add: s2_def restart_prepare_def Let_def emitEvent_def)
  have oc: "on_close h sid (Some 0) s = restart_after_delay h sid c s2"
    by (simp add: on_close_def cb cd)
  have fl2: "shouldContinueLoop s2 sid = Some True"
    by (simp add: s2_eq s1_def flags)
  have p2: "processes s2 sid = None"
    by (simp add: s2_eq s1_def)
  have e2: "existsSync s2 (path_join (projectPath c) (promptFile c))"
    using prompt by (simp add: s2_eq s1_def existsSync_def)
  have p2': "processes s2 (sessionId c) = None"
    using p2 cfg(2) by simp
  note sl = startLoop_succeeds[OF p2' e2, of h, unfolded cfg(2)]
  have rd: "restart_after_delay h sid c s2 = snd (startLoop h c s2)"
    using sl(1) by (cases "startLoop h c s2") (auto simp: restart_after_delay_def fl2)
  have s2_props: "files s2 = files s" "iterationCounts s2 sid = Some (Suc n)"
    "spawned s2 = spawned s" "stop_reasons s2 = stop_reasons s"
    by (simp_all add: s2_eq s1_def stop_reasons_def List.map_filter_def)
  show ?thesis
    unfolding oc rd using sl s2_props by simp
qed

text \<open>One exit with code 0 of a session whose counter has reached the cap, without automatic review.\<close>

lemma on_close_at_cap:
  assumes cfg: "sessionConfigs s sid = Some c"
    and flags: "shouldContinueLoop s sid = Some True" "exitSignalReceived s sid \<noteq> Some True"
    and plan: "\<not> checkPlanExhausted s (projectPath c)"
    and review: "autoReview c \<noteq> Some True"
    and count: "iterationCounts s sid = Some n" "maxIterations c = Some m" "0 < m" "m \<le> int n"
  shows "processes (on_close h sid (Some 0) s) sid = None \<and>
         spawned (on_close h sid (Some 0) s) = spawned s \<and>
         stop_reasons (on_close h sid (Some 0) s) =
           stop_reasons s @ [MaxIterationsReached (Some m)] \<and>
         (sid, Complete (Some 0) (MaxIterationsReached (Some m)) n)
           \<in> set (emitted (on_close h sid (Some 0) s))"
proof -
  define s1 where "s1 = s\<lparr>processes := (processes s)(sid := None),
                         outputBuffers := (outputBuffers s)(sid := None)\<rparr>"
  define snap where "snap = \<lparr>snap_config = Some c, snap_shouldContinue = Some True,
      snap_exitSignal = exitSignalReceived s sid, snap_currentIteration = n\<rparr>"
  have cb: "close_begin sid s = (snap, s1)"
    by (simp add: close_begin_def Let_def snap_def s1_def cfg flags count)
  have pe: "\<not> planExhausted snap s1"
    using plan by (simp add: planExhausted_def snap_def s1_def checkPlanExhausted_def readFile_def)
  have pe': "\<not> planExhausted snap (emitEvent sid e s1)" for e
    using plan by (simp add: planExhausted_def snap_def s1_def checkPlanExhausted_def readFile_def
        emitEvent_def)
  have mr: "maxReached snap"
    using count by (simp add: maxReached_def snap_def)
  have wr: "\<not> will_restart (Some 0) snap s1"
    using mr by (simp add: will_restart_def)
  have sr: "stop_reason_of (Some 0) snap s1 = MaxIterationsReached (Some m)"
    using pe mr flags count by (simp add: stop_reason_of_def snap_def)
  have cf: "close_finish h sid (Some 0) snap s1 =
      emitEvent sid (SessionEnd (Some 0)) (cleanupSession sid
        (emitEvent sid (Complete (Some 0) (MaxIterationsReached (Some m)) n) s1))"
    using review by (simp add: close_finish_def Let_def sr) (simp add: snap_def)
  have oc: "on_close h sid (Some 0) s =
      emitEvent sid (SessionEnd (Some 0)) (cleanupSession sid
        (emitEvent sid (Complete (Some 0) (MaxIterationsReached (Some m)) n) s1))"
    using wr pe by (simp add: on_close_def cb close_decide_def Let_def cf)
  show ?thesis
    unfolding oc
    by (simp add: emitEvent_def cleanupSession_def s1_def stop_reasons_def List.map_filter_def)
qed

text \<open>
  C3 fails on the code by one iteration. A session starts with the cap 3 on a plan that
  keeps an open item, without automatic push or review, and each of its processes exits
  with code 0 and sends no exit signal: after the first three exits a further process is
  spawned each time, so the fourth exit is the one that ends the loop with the reason
  \<open>MaxIterationsReached\<close>. Four processes ran where the claim says three.
\<close>

theorem max_three_spawns_four:
  assumes start: "processes s0 (sessionId c) = None" "iterationCounts s0 (sessionId c) = None"
      "existsSync s0 (path_join (projectPath c) (promptFile c))"
    and plan: "\<not> checkPlanExhausted s0 (projectPath c)"
    and cfg: "maxIterations c = Some 3" "autoPush c \<noteq> Some True" "autoReview c \<noteq> Some True"
  shows "let sid = sessionId c;
             s1 = snd (startLoop h c s0);
             s2 = on_close h sid (Some 0) s1;
             s3 = on_close h sid (Some 0) s2;
             s4 = on_close h sid (Some 0) s3;
             s5 = on_close h sid (Some 0) s4
         in map (\<lambda>s. length (spawned s)) [s1, s2, s3, s4, s5] =
              map (\<lambda>k. length (spawned s0) + k) [1, 2, 3, 4, 4] \<and>
            map (\<lambda>s. processes s sid \<noteq> None) [s1, s2, s3, s4, s5] =
              [True, True, True, True, False] \<and>
            map stop_reasons [s1, s2, s3, s4] =
              [stop_reasons s0, stop_reasons s0, stop_reasons s0, stop_reasons s0] \<and>
            stop_reasons s5 = stop_reasons s0 @ [MaxIterationsReached (Some 3)]"
proof -
  define sid where "sid = sessionId c"
  define inv where "inv = (\<lambda>n k s.
      sessionConfigs s sid = Some c \<and> shouldContinueLoop s sid = Some True \<and>
      exitSignalReceived s sid \<noteq> Some True \<and> files s = files s0 \<and>
      iterationCounts s sid = Some n \<and> processes s sid \<noteq> None \<and>
      length (spawned s) = length (spawned s0) + k \<and> stop_reasons s = stop_reasons s0)"
  have frame: "files s = files s0 \<Longrightarrow>
      \<not> checkPlanExhausted s (projectPath c) \<and>
      existsSync s (path_join (projectPath c) (promptFile c))" for s
    using plan start(3) by (simp add: checkPlanExhausted_def readFile_def existsSync_def)
  have step: "inv (Suc n) (Suc k) (on_close h sid (Some 0) s)" if "inv n k s" "n < 3" for n k s
  proof -
    from that(1) have i: "sessionConfigs s sid = Some c" "shouldContinueLoop s sid = Some True"
      "exitSignalReceived s sid \<noteq> Some True" "files s = files s0"
      "iterationCounts s sid = Some n" "length (spawned s) = length (spawned s0) + k"
      "stop_reasons s = stop_reasons s0"
      by (simp_all add: inv_def)
    from that(2) have lt: "int n < 3" by simp
    from on_close_restarts[OF i(1) sid_def[symmetric] i(2,3) conjunct1[OF frame[OF i(4)]]
        conjunct2[OF frame[OF i(4)]] cfg(2) i(5) cfg(1) lt, of h]
    show ?thesis
      using i by (simp add: inv_def)
  qed
  define s1 where "s1 = snd (startLoop h c s0)"
  define s2 where "s2 = on_close h sid (Some 0) s1"
  define s3 where "s3 = on_close h sid (Some 0) s2"
  define s4 where "s4 = on_close h sid (Some 0) s3"
  define s5 where "s5 = on_close h sid (Some 0) s4"
  have i1: "inv 0 (Suc 0) s1"
    using startLoop_succeeds[OF start(1,3), of h] start(2)
    by (simp add: inv_def s1_def sid_def)
  have i2: "inv (Suc 0) (Suc (Suc 0)) s2"
    unfolding s2_def by (rule step[OF i1]) simp
  have i3: "inv (Suc (Suc 0)) (Suc (Suc (Suc 0))) s3"
    unfolding s3_def by (rule step[OF i2]) simp
  have i4: "inv (Suc (Suc (Suc 0))) (Suc (Suc (Suc (Suc 0)))) s4"
    unfolding s4_def by (rule step[OF i3]) simp
  have i4': "sessionConfigs s4 sid = Some c" "shouldContinueLoop s4 sid = Some True"
      "exitSignalReceived s4 sid \<noteq> Some True" "files s4 = files s0"
      "iterationCounts s4 sid = Some (Suc (Suc (Suc 0)))"
      "length (spawned s4) = length (spawned s0) + 4"
      "stop_reasons s4 = stop_reasons s0"
    using i4 by (simp_all add: inv_def)
  have cap: "processes s5 sid = None \<and> spawned s5 = spawned s4 \<and>
      stop_reasons s5 = stop_reasons s4 @ [MaxIterationsReached (Some 3)]"
    using on_close_at_cap[OF i4'(1,2,3) conjunct1[OF frame[OF i4'(4)]] cfg(3) i4'(5) cfg(1), of h]
    by (simp add: s5_def)
  show ?thesis
    unfolding Let_def sid_def[symmetric] s1_def[symmetric] s2_def[symmetric] s3_def[symmetric]
      s4_def[symmetric] s5_def[symmetric]
    using i1 i2 i3 i4 cap by (simp add: inv_def)
qed

theorem max_three_spawns_four_witness:
  "processes (fresh open_plan) (sessionId sample_config) = None \<and>
   iterationCounts (fresh open_plan) (sessionId sample_config) = None \<and>
   existsSync (fresh open_plan)
     (path_join (projectPath sample_config) (promptFile sample_config)) \<and>
   \<not> checkPlanExhausted (fresh open_plan) (projectPath sample_config) \<and>
   maxIterations sample_config = Some 3 \<and> autoPush sample_config \<noteq> Some True \<and>
   autoReview sample_config \<noteq> Some True \<and>
   (let s2 = on_close sample_host ''s1'' (Some 0) started;
        s3 = on_close sample_host ''s1'' (Some 0) s2;
        s4 = on_close sample_host ''s1'' (Some 0) s3;
        s5 = on_close sample_host ''s1'' (Some 0) s4
    in map (\<lambda>s. length (spawned s)) [started, s2, s3, s4, s5] = [1, 2, 3, 4, 4] \<and>
       map (\<lambda>s. processes s ''s1'' \<noteq> None) [started, s2, s3, s4, s5] =
         [True, True, True, True, False] \<and>
       stop_reasons s4 = [] \<and>
       stop_reasons s5 = [MaxIterationsReached (Some 3)])"
proof -
  have a: "processes (fresh open_plan) (sessionId sample_config) = None"
      "iterationCounts (fresh open_plan) (sessionId sample_config) = None"
    by (simp_all add: fresh_def)
  have b: "existsSync (fresh open_plan)
      (path_join (projectPath sample_config) (promptFile sample_config))"
    by (simp add: run_defs)
  have p: "\<not> checkPlanExhausted (fresh open_plan) (projectPath sample_config)"
    by (simp add: run_defs)
  have c: "maxIterations sample_config = Some 3" "autoPush sample_config \<noteq> Some True"
      "autoReview sample_config \<noteq> Some True"
    by (simp_all add: sample_config_def)
  have sid: "sessionId sample_config = ''s1''"
    by (simp add: sample_config_def)
  have z: "spawned (fresh open_plan) = []" "stop_reasons (fresh open_plan) = []"
    by (simp_all add: fresh_def stop_reasons_def List.map_filter_def)
  from max_three_spawns_four[OF a b p c, of sample_host]
  show ?thesis
    using a b p c
    unfolding Let_def sid started_def[symmetric] z
    by (simp add: numeral_eq_Suc)
qed

subsection \<open>The status block without its end\<close>

text \<open>
  C5 fails on the code. The marker is in the text and the parser returns no status: the
  block has to be followed by an empty line or by the letter z, and this text, a usual
  one-line status, has neither. With a z in a field the block is cut there: the second
  text gives a status, without the task and without the exit signal that the text holds.
\<close>

theorem status_marker_without_block_end:
  "parseRalphStatus ''RALPH_STATUS: EXIT_SIGNAL: true'' = None \<and>
   parseRalphStatus ''RALPH_STATUS: TASK_COMPLETED: \"resize\", EXIT_SIGNAL: true'' =
     Some \<lparr>taskCompleted = [], filesCreated = [], nextTask = [], exitSignal = False,
           notesText = []\<rparr>"
  by (simp add: run_defs)

subsection \<open>The score of a partial review\<close>

text \<open>
  C6 fails on the code. A review output with no JSON in it and the score 150 gives a result
  whose score is 150: the partial extraction takes the digits as they are, and the
  normalisation does not clamp. A score given as a string in a JSON block goes through the
  repair unclamped too. Only a score that is a number is clamped.
\<close>

theorem partial_review_score_not_clamped:
  "map_sum id (map_option (\<lambda>r. (opt_prop r ''reviewStatus'', opt_prop r ''overallScore'')))
     (parseReviewOutput sample_js ''overallScore: 150'') =
   Inr (Some (JStr ''ERROR'', JNum 150)) \<and>
   map_sum id (map_option (\<lambda>r. (opt_prop r ''reviewStatus'', opt_prop r ''overallScore'')))
     (parseReviewOutput sample_js
        ''```json\<newline>{\"reviewStatus\":\"partial\",\"overallScore\":\"150\"}\<newline>```'') =
   Inr (Some (JStr ''PARTIAL'', JNum 150)) \<and>
   fix_score (JNum 150) = JNum 100"
  by (simp add: review_defs run_defs try_json_def accept_parsed_def
        validateReviewResultWithDetails_def review_statuses_def fixReviewResult_def
        fix_status_def fix_score_def toUpperCase_def is_ascii_def string_or_def)

subsection \<open>What the patterns match\<close>

lemma lit_matches:
  "lit p k s \<noteq> None \<longleftrightarrow> (\<exists>t. s = p @ t \<and> k t \<noteq> None)"
proof (induction p k s rule: lit.induct)
  case (1 k s)
  then show ?case by simp
next
  case (2 p ps k)
  then show ?case by simp
next
  case (3 p ps k c cs)
  then show ?case by auto
qed

lemma star_matches:
  "star P k acc s \<noteq> None \<longleftrightarrow>
   (\<exists>a t. s = a @ t \<and> list_all P a \<and> k (acc @ a) t \<noteq> None)"
proof (induction s arbitrary: acc)
  case Nil
  then show ?case by simp
next
  case (Cons c cs)
  show ?case
  proof (cases "P c")
    case False
    have "(\<exists>a t. c # cs = a @ t \<and> list_all P a \<and> k (acc @ a) t \<noteq> None) \<longleftrightarrow>
          k acc (c # cs) \<noteq> None"
    proof
      assume "\<exists>a t. c # cs = a @ t \<and> list_all P a \<and> k (acc @ a) t \<noteq> None"
      then obtain a t where at: "c # cs = a @ t" "list_all P a" "k (acc @ a) t \<noteq> None"
        by blast
      with False have "a = []"
        by (cases a) auto
      with at show "k acc (c # cs) \<noteq> None" by simp
    next
      assume "k acc (c # cs) \<noteq> None"
      then have "c # cs = [] @ (c # cs) \<and> list_all P [] \<and> k (acc @ []) (c # cs) \<noteq> None"
        by simp
      then show "\<exists>a t. c # cs = a @ t \<and> list_all P a \<and> k (acc @ a) t \<noteq> None"
        by blast
    qed
    with False show ?thesis by simp
  next
    case True
    have "(\<exists>a t. c # cs = a @ t \<and> list_all P a \<and> k (acc @ a) t \<noteq> None) \<longleftrightarrow>
          k acc (c # cs) \<noteq> None \<or>
          (\<exists>a t. cs = a @ t \<and> list_all P a \<and> k ((acc @ [c]) @ a) t \<noteq> None)"
    proof
      assume "\<exists>a t. c # cs = a @ t \<and> list_all P a \<and> k (acc @ a) t \<noteq> None"
      then obtain a t where at: "c # cs = a @ t" "list_all P a" "k (acc @ a) t \<noteq> None"
        by blast
      show "k acc (c # cs) \<noteq> None \<or>
          (\<exists>a t. cs = a @ t \<and> list_all P a \<and> k ((acc @ [c]) @ a) t \<noteq> None)"
      proof (cases a)
        case Nil
        with at show ?thesis by simp
      next
        case (Cons x xs)
        with at have "cs = xs @ t \<and> list_all P xs \<and> k ((acc @ [c]) @ xs) t \<noteq> None"
          by simp
        then show ?thesis by blast
      qed
    next
      assume "k acc (c # cs) \<noteq> None \<or>
          (\<exists>a t. cs = a @ t \<and> list_all P a \<and> k ((acc @ [c]) @ a) t \<noteq> None)"
      then show "\<exists>a t. c # cs = a @ t \<and> list_all P a \<and> k (acc @ a) t \<noteq> None"
      proof
        assume "k acc (c # cs) \<noteq> None"
        then have "c # cs = [] @ (c # cs) \<and> list_all P [] \<and> k (acc @ []) (c # cs) \<noteq> None"
          by simp
        then show ?thesis by blast
      next
        assume "\<exists>a t. cs = a @ t \<and> list_all P a \<and> k ((acc @ [c]) @ a) t \<noteq> None"
        then obtain a t where "cs = a @ t" "list_all P a" "k ((acc @ [c]) @ a) t \<noteq> None"
          by blast
        with True have "c # cs = (c # a) @ t \<and> list_all P (c # a) \<and> k (acc @ (c # a)) t \<noteq> None"
          by simp
        then show ?thesis by blast
      qed
    qed
    with True Cons.IH[of "acc @ [c]"] show ?thesis
      by (auto split: option.splits)
  qed
qed

lemma spaces_matches:
  "spaces k s \<noteq> None \<longleftrightarrow> (\<exists>a t. s = a @ t \<and> list_all is_space a \<and> k t \<noteq> None)"
  unfolding spaces_def using star_matches[of is_space "\<lambda>_. k" "[]" s] by simp

lemma unchecked_marker_shape:
  "unchecked_marker t \<longleftrightarrow>
   (\<exists>a b rest. t = ''-'' @ a @ ''['' @ b @ '']'' @ rest \<and> list_all is_space a \<and> list_all is_space b)"
proof -
  define k5 :: "string \<Rightarrow> unit option" where "k5 = (\<lambda>_. Some ())"
  define k4 where "k4 = lit '']'' k5"
  define k3 where "k3 = spaces k4"
  define k2 where "k2 = lit ''['' k3"
  define k1 where "k1 = spaces k2"
  have m4: "k4 u \<noteq> None \<longleftrightarrow> (\<exists>rest. u = '']'' @ rest)" for u
    unfolding k4_def lit_matches by (simp add: k5_def)
  have m3: "k3 u \<noteq> None \<longleftrightarrow> (\<exists>b rest. u = b @ '']'' @ rest \<and> list_all is_space b)" for u
    unfolding k3_def spaces_matches m4 by blast
  have m2: "k2 u \<noteq> None \<longleftrightarrow> (\<exists>b rest. u = ''['' @ b @ '']'' @ rest \<and> list_all is_space b)" for u
    unfolding k2_def lit_matches m3 by blast
  have m1: "k1 u \<noteq> None \<longleftrightarrow>
      (\<exists>a b rest. u = a @ ''['' @ b @ '']'' @ rest \<and> list_all is_space a \<and> list_all is_space b)" for u
    unfolding k1_def spaces_matches m2 by blast
  have "unchecked_marker t \<longleftrightarrow> lit ''-'' k1 t \<noteq> None"
    by (simp add: unchecked_marker_def k1_def k2_def k3_def k4_def k5_def)
  also have "\<dots> \<longleftrightarrow> (\<exists>a b rest. t = ''-'' @ a @ ''['' @ b @ '']'' @ rest \<and>
      list_all is_space a \<and> list_all is_space b)"
    unfolding lit_matches m1 by blast
  finally show ?thesis .
qed

subsection \<open>The exhausted plan\<close>

lemma unchecked_marker_Nil: "\<not> unchecked_marker []"
  by (simp add: unchecked_marker_shape)

lemma unchecked_marker_append:
  assumes "unchecked_marker l"
  shows "unchecked_marker (l @ rest)"
proof -
  from assms obtain a b r where l: "l = ''-'' @ a @ ''['' @ b @ '']'' @ r"
      and ab: "list_all is_space a" "list_all is_space b"
    unfolding unchecked_marker_shape by blast
  from l have "l @ rest = ''-'' @ a @ ''['' @ b @ '']'' @ (r @ rest)"
    by simp
  with ab show ?thesis
    unfolding unchecked_marker_shape by blast
qed

lemma has_unchecked_positions:
  "has_unchecked bol content \<longleftrightarrow>
   (bol \<and> unchecked_marker content) \<or>
   (\<exists>i. 0 < i \<and> i \<le> length content \<and> is_line_terminator (content ! (i - 1)) \<and>
        unchecked_marker (drop i content))"
proof (induction content arbitrary: bol)
  case Nil
  then show ?case by simp
next
  case (Cons c cs)
  have "(\<exists>j. 0 < j \<and> j \<le> length (c # cs) \<and> is_line_terminator ((c # cs) ! (j - 1)) \<and>
            unchecked_marker (drop j (c # cs))) \<longleftrightarrow>
        (is_line_terminator c \<and> unchecked_marker cs) \<or>
        (\<exists>i. 0 < i \<and> i \<le> length cs \<and> is_line_terminator (cs ! (i - 1)) \<and>
            unchecked_marker (drop i cs))"
    (is "?L \<longleftrightarrow> ?A \<or> ?B")
  proof
    assume ?L
    then obtain j where j: "0 < j" "j \<le> length (c # cs)"
        "is_line_terminator ((c # cs) ! (j - 1))" "unchecked_marker (drop j (c # cs))"
      by blast
    show "?A \<or> ?B"
    proof (cases "j = 1")
      case True
      with j show ?thesis by simp
    next
      case False
      with j obtain i where i: "j = Suc i" "0 < i"
        by (cases j) auto
      with j have "i \<le> length cs \<and> is_line_terminator (cs ! (i - 1)) \<and>
          unchecked_marker (drop i cs)"
        by (cases i) auto
      with i show ?thesis by blast
    qed
  next
    assume "?A \<or> ?B"
    then show ?L
    proof
      assume ?A
      then have "0 < (1::nat) \<and> 1 \<le> length (c # cs) \<and>
          is_line_terminator ((c # cs) ! (1 - 1)) \<and> unchecked_marker (drop 1 (c # cs))"
        by simp
      then show ?L by blast
    next
      assume ?B
      then obtain i where i: "0 < i" "i \<le> length cs" "is_line_terminator (cs ! (i - 1))"
          "unchecked_marker (drop i cs)"
        by blast
      then have "0 < Suc i \<and> Suc i \<le> length (c # cs) \<and>
          is_line_terminator ((c # cs) ! (Suc i - 1)) \<and> unchecked_marker (drop (Suc i) (c # cs))"
        by (cases i) auto
      then show ?L by blast
    qed
  qed
  with Cons.IH[of "is_line_terminator c"] show ?case
    by auto
qed

lemma has_unchecked_line_start:
  "has_unchecked True content \<longleftrightarrow>
   (\<exists>i. line_start content i \<and> unchecked_marker (drop i content))"
proof -
  have "(\<exists>i. line_start content i \<and> unchecked_marker (drop i content)) \<longleftrightarrow>
      unchecked_marker content \<or>
      (\<exists>i. 0 < i \<and> i \<le> length content \<and> is_line_terminator (content ! (i - 1)) \<and>
           unchecked_marker (drop i content))"
    (is "?L \<longleftrightarrow> ?A \<or> ?B")
  proof
    assume ?L
    then obtain i where i: "line_start content i" "unchecked_marker (drop i content)"
      by blast
    show "?A \<or> ?B"
    proof (cases "i = 0")
      case True
      with i show ?thesis by simp
    next
      case False
      with i have "0 < i \<and> i \<le> length content \<and> is_line_terminator (content ! (i - 1)) \<and>
          unchecked_marker (drop i content)"
        by (simp add: line_start_def)
      then show ?thesis by blast
    qed
  next
    assume "?A \<or> ?B"
    then show ?L
    proof
      assume ?A
      then have "line_start content 0 \<and> unchecked_marker (drop 0 content)"
        by (simp add: line_start_def)
      then show ?L by blast
    next
      assume ?B
      then obtain i where "0 < i" "i \<le> length content"
          "is_line_terminator (content ! (i - 1))" "unchecked_marker (drop i content)"
        by blast
      then have "line_start content i \<and> unchecked_marker (drop i content)"
        by (simp add: line_start_def)
      then show ?L by blast
    qed
  qed
  then show ?thesis
    by (simp add: has_unchecked_positions)
qed

lemma doc_lines_not_Nil: "doc_lines content \<noteq> []"
  by (induction content) (auto split: list.splits)

lemma doc_lines_head_prefix: "\<exists>rest. content = hd (doc_lines content) @ rest"
proof (induction content)
  case Nil
  then show ?case by simp
next
  case (Cons c cs)
  then obtain rest where r: "cs = hd (doc_lines cs) @ rest"
    by blast
  show ?case
  proof (cases "is_line_terminator c")
    case True
    then show ?thesis by simp
  next
    case False
    obtain l ls where d: "doc_lines cs = l # ls"
      using doc_lines_not_Nil[of cs] by (cases "doc_lines cs") auto
    with r have "c # cs = (c # l) @ rest"
      by simp
    with False d show ?thesis
      by auto
  qed
qed

lemma doc_lines_tail_positions:
  "l \<in> set (tl (doc_lines content)) \<Longrightarrow>
   \<exists>i rest. 0 < i \<and> i \<le> length content \<and> is_line_terminator (content ! (i - 1)) \<and>
     drop i content = l @ rest"
proof (induction content)
  case Nil
  then show ?case by simp
next
  case (Cons c cs)
  obtain l0 ls where d: "doc_lines cs = l0 # ls"
    using doc_lines_not_Nil[of cs] by (cases "doc_lines cs") auto
  have up: "\<exists>i rest. 0 < i \<and> i \<le> length (c # cs) \<and> is_line_terminator ((c # cs) ! (i - 1)) \<and>
      drop i (c # cs) = l @ rest" if "l \<in> set (tl (doc_lines cs))"
  proof -
    from Cons.IH[OF that] obtain i rest where i: "0 < i" "i \<le> length cs"
        "is_line_terminator (cs ! (i - 1))" "drop i cs = l @ rest"
      by blast
    then have "0 < Suc i \<and> Suc i \<le> length (c # cs) \<and>
        is_line_terminator ((c # cs) ! (Suc i - 1)) \<and> drop (Suc i) (c # cs) = l @ rest"
      by (cases i) auto
    then show ?thesis by blast
  qed
  show ?case
  proof (cases "is_line_terminator c")
    case False
    with Cons.prems d have "l \<in> set (tl (doc_lines cs))"
      by simp
    then show ?thesis by (rule up)
  next
    case True
    with Cons.prems d have "l = l0 \<or> l \<in> set (tl (doc_lines cs))"
      by auto
    then show ?thesis
    proof
      assume "l = l0"
      with d doc_lines_head_prefix[of cs] obtain rest where "cs = l @ rest"
        by auto
      with True have "0 < (1::nat) \<and> 1 \<le> length (c # cs) \<and>
          is_line_terminator ((c # cs) ! (1 - 1)) \<and> drop 1 (c # cs) = l @ rest"
        by simp
      then show ?thesis by blast
    next
      assume "l \<in> set (tl (doc_lines cs))"
      then show ?thesis by (rule up)
    qed
  qed
qed

lemma marked_line_found:
  assumes "l \<in> set (doc_lines content)" and "unchecked_marker l"
  shows "has_unchecked True content"
proof -
  from assms(1) doc_lines_not_Nil[of content]
  have "l = hd (doc_lines content) \<or> l \<in> set (tl (doc_lines content))"
    by (cases "doc_lines content") auto
  then show ?thesis
  proof
    assume "l = hd (doc_lines content)"
    with doc_lines_head_prefix[of content] obtain rest where "content = l @ rest"
      by auto
    with assms(2) unchecked_marker_append[of l rest] show ?thesis
      by (simp add: has_unchecked_positions)
  next
    assume "l \<in> set (tl (doc_lines content))"
    from doc_lines_tail_positions[OF this] obtain i rest where i: "0 < i" "i \<le> length content"
        "is_line_terminator (content ! (i - 1))" "drop i content = l @ rest"
      by blast
    with assms(2) unchecked_marker_append[of l rest]
    have "0 < i \<and> i \<le> length content \<and> is_line_terminator (content ! (i - 1)) \<and>
        unchecked_marker (drop i content)"
      by simp
    then show ?thesis
      unfolding has_unchecked_positions[of True content] by blast
  qed
qed

text \<open>
  C4, as amended. The plan is exhausted exactly when the file can be read and its text has
  no line start at which the marker begins. The marker is a dash, white space, an opening
  bracket, white space and a closing bracket, and its white space may hold line breaks.
  So a plan with a line that begins with the marker is not exhausted, and neither is a plan
  that is missing or cannot be read.
\<close>

theorem plan_exhausted_iff_no_marker_at_line_start:
  "(checkPlanExhausted s dir \<longleftrightarrow>
      (\<exists>content. readFile s (path_join dir ''IMPLEMENTATION_PLAN.md'') = Some content \<and>
         \<not> (\<exists>i. line_start content i \<and> unchecked_marker (drop i content)))) \<and>
   (unchecked_marker t \<longleftrightarrow>
      (\<exists>a b rest. t = ''-'' @ a @ ''['' @ b @ '']'' @ rest \<and>
         list_all is_space a \<and> list_all is_space b)) \<and>
   (\<forall>content l. readFile s (path_join dir ''IMPLEMENTATION_PLAN.md'') = Some content \<and>
      l \<in> set (doc_lines content) \<and> unchecked_marker l \<longrightarrow> \<not> checkPlanExhausted s dir) \<and>
   (readFile s (path_join dir ''IMPLEMENTATION_PLAN.md'') = None \<longrightarrow> \<not> checkPlanExhausted s dir)"
proof -
  have a: "checkPlanExhausted s dir \<longleftrightarrow>
      (\<exists>content. readFile s (path_join dir ''IMPLEMENTATION_PLAN.md'') = Some content \<and>
         \<not> (\<exists>i. line_start content i \<and> unchecked_marker (drop i content)))"
    by (cases "readFile s (path_join dir ''IMPLEMENTATION_PLAN.md'')")
       (simp_all add: checkPlanExhausted_def has_unchecked_line_start)
  have c: "\<not> checkPlanExhausted s dir"
    if "readFile s (path_join dir ''IMPLEMENTATION_PLAN.md'') = Some content"
      "l \<in> set (doc_lines content)" "unchecked_marker l" for content l
    using that marked_line_found[of l content] by (simp add: checkPlanExhausted_def)
  have d: "readFile s (path_join dir ''IMPLEMENTATION_PLAN.md'') = None \<longrightarrow>
      \<not> checkPlanExhausted s dir"
    by (simp add: checkPlanExhausted_def)
  show ?thesis
    using a unchecked_marker_shape[of t] c d by blast
qed

theorem plan_exhausted_iff_no_marker_at_line_start_witness:
  "readFile (fresh open_plan) (path_join ''proj'' ''IMPLEMENTATION_PLAN.md'') =
     Some ''# Plan\<newline>- [x] one\<newline>- [ ] two'' \<and>
   ''- [ ] two'' \<in> set (doc_lines ''# Plan\<newline>- [x] one\<newline>- [ ] two'') \<and>
   unchecked_marker ''- [ ] two'' \<and>
   \<not> checkPlanExhausted (fresh open_plan) ''proj'' \<and>
   checkPlanExhausted (fresh done_plan) ''proj'' \<and>
   readFile (fresh Map.empty) (path_join ''proj'' ''IMPLEMENTATION_PLAN.md'') = None \<and>
   \<not> checkPlanExhausted (fresh Map.empty) ''proj''"
proof -
  have r: "readFile (fresh open_plan) (path_join ''proj'' ''IMPLEMENTATION_PLAN.md'') =
     Some ''# Plan\<newline>- [x] one\<newline>- [ ] two''"
    by (simp add: run_defs)
  have l: "''- [ ] two'' \<in> set (doc_lines ''# Plan\<newline>- [x] one\<newline>- [ ] two'')"
    by (simp add: is_line_terminator_def)
  have m: "unchecked_marker ''- [ ] two''"
    by (simp add: run_defs)
  have e: "readFile (fresh Map.empty) (path_join ''proj'' ''IMPLEMENTATION_PLAN.md'') = None"
    by (simp add: run_defs)
  have d: "checkPlanExhausted (fresh done_plan) ''proj''"
    by (simp add: run_defs)
  from plan_exhausted_iff_no_marker_at_line_start[of "fresh open_plan" "''proj''"] r l m
  have n1: "\<not> checkPlanExhausted (fresh open_plan) ''proj''"
    by blast
  from plan_exhausted_iff_no_marker_at_line_start[of "fresh Map.empty" "''proj''"] e
  have n2: "\<not> checkPlanExhausted (fresh Map.empty) ''proj''"
    by blast
  show ?thesis
    using r l m n1 d e n2 by blast
qed

text \<open>
  C4 as stated fails: neither line of this plan matches the marker, the dash being on one
  line and the brackets on the next, and the plan is not exhausted, since the white space
  after the dash takes the line break.
\<close>

theorem plan_marker_across_lines_counterexample:
  "doc_lines ''-\<newline>[ ]'' = [''-'', ''[ ]''] \<and>
   \<not> unchecked_marker ''-'' \<and> \<not> unchecked_marker ''[ ]'' \<and>
   readFile (fresh [''proj/IMPLEMENTATION_PLAN.md'' \<mapsto> Readable ''-\<newline>[ ]''])
     (path_join ''proj'' ''IMPLEMENTATION_PLAN.md'') = Some ''-\<newline>[ ]'' \<and>
   \<not> checkPlanExhausted
        (fresh [''proj/IMPLEMENTATION_PLAN.md'' \<mapsto> Readable ''-\<newline>[ ]'']) ''proj''"
  by (simp add: run_defs)

subsection \<open>The lines of the output\<close>

lemma split_on_not_Nil: "split_on d s \<noteq> []"
  by (induction s) (auto split: list.splits)

lemma join_split_on: "join_with [d] (split_on d s) = s"
proof (induction s)
  case Nil
  then show ?case by simp
next
  case (Cons c cs)
  obtain l ls where sp: "split_on d cs = l # ls"
    using split_on_not_Nil[of d cs] by (cases "split_on d cs") auto
  show ?case
  proof (cases "c = d")
    case True
    with Cons sp show ?thesis by simp
  next
    case False
    with Cons sp show ?thesis
      by (cases ls) simp_all
  qed
qed

lemma handleRalphStatus_emitted:
  "emitted (handleRalphStatus sid st s) =
   emitted s @ [(sid, RalphStatusEvent st)] @
     (if exitSignal st then [(sid, System ExitSignalNotice)] else [])"
  by (simp add: handleRalphStatus_def emitEvent_def Let_def)

lemma raw_line_emitted:
  "\<exists>rest. emitted (raw_line sid line s) = emitted s @ (sid, StdoutRaw line) # rest"
  by (simp add: raw_line_def emitEvent_def Let_def handleRalphStatus_emitted
        split: option.splits)

lemma raw_line_after_parsed:
  "\<exists>rest. emitted (raw_line sid line (s\<lparr>emitted := emitted s @ [e]\<rparr>)) = emitted s @ e # rest"
  using raw_line_emitted[of sid line "s\<lparr>emitted := emitted s @ [e]\<rparr>"] by auto

lemma handle_line_block:
  "\<exists>block. emitted (handle_line j sid line s) = emitted s @ block \<and> line_block j sid line block"
proof (cases "trim line = []")
  case True
  then have "emitted (handle_line j sid line s) = emitted s @ [] \<and> line_block j sid line []"
    by (simp add: handle_line_def line_block_def)
  then show ?thesis by blast
next
  case False
  have "\<exists>rest. emitted (handle_line j sid line s) = emitted s @ (sid, stdout_event j line) # rest"
  proof (cases "json_parse j line")
    case None
    with False raw_line_emitted[of sid line s] show ?thesis
      by (simp add: handle_line_def stdout_event_def)
  next
    case (Some parsed)
    define s1 where "s1 = s\<lparr>emitted := emitted s @ [(sid, Stdout parsed)]\<rparr>"
    have ev: "stdout_event j line = Stdout parsed"
      by (simp add: stdout_event_def Some)
    show ?thesis
    proof (cases "get_prop parsed ''type''")
      case (Inl e)
      with False Some raw_line_after_parsed[of sid line s "(sid, Stdout parsed)"] show ?thesis
        by (simp add: handle_line_def Let_def emitEvent_def ev)
    next
      case (Inr ty)
      define s2 where "s2 =
        (if ty = JStr ''system'' \<and> opt_prop parsed ''subtype'' = JStr ''init'' \<and>
            truthy (opt_prop parsed ''session_id'')
         then s1\<lparr>claudeSessionIds := (claudeSessionIds s1)(sid \<mapsto> opt_prop parsed ''session_id'')\<rparr>
         else s1)"
      have e2: "emitted s2 = emitted s @ [(sid, Stdout parsed)]"
        by (simp add: s2_def s1_def)
      define tx where "tx = opt_prop (opt_prop (opt_prop parsed ''event'') ''delta'') ''text''"
      have hl: "handle_line j sid line s =
          (if truthy tx
           then (case tx of
                   JStr t \<Rightarrow> (case parseRalphStatus t of
                                Some st \<Rightarrow> handleRalphStatus sid st s2 | None \<Rightarrow> s2)
                 | _ \<Rightarrow> raw_line sid line s2)
           else s2)"
        unfolding handle_line_def Let_def s2_def s1_def tx_def emitEvent_def
        using False Some Inr by simp
      have raw2: "\<exists>rest. emitted (raw_line sid line s2) = emitted s @ (sid, Stdout parsed) # rest"
        using raw_line_emitted[of sid line s2] by (auto simp: e2)
      have st2: "\<exists>rest. emitted (handleRalphStatus sid st s2) = emitted s @ (sid, Stdout parsed) # rest"
        for st
        by (simp add: handleRalphStatus_emitted e2)
      show ?thesis
        unfolding hl ev using raw2 st2 e2
        by (cases tx) (auto split: option.splits)
    qed
  qed
  then obtain rest where
    "emitted (handle_line j sid line s) = emitted s @ ((sid, stdout_event j line) # rest) \<and>
     line_block j sid line ((sid, stdout_event j line) # rest)"
    using False by (auto simp: line_block_def)
  then show ?thesis by blast
qed

lemma handle_line_frame:
  "processes (handle_line j sid line s) = processes s \<and>
   outputBuffers (handle_line j sid line s) = outputBuffers s \<and>
   shouldContinueLoop (handle_line j sid line s) = shouldContinueLoop s"
  unfolding handle_line_def Let_def raw_line_def handleRalphStatus_def
  by (simp add: emitEvent_def split: option.splits sum.splits jsval.splits)

lemma lines_blocks:
  "\<exists>blocks. emitted (foldl (\<lambda>st line. handle_line j sid line st) s ls) = emitted s @ concat blocks \<and>
     list_all2 (line_block j sid) ls blocks"
proof (induction ls arbitrary: s)
  case Nil
  have "emitted s = emitted s @ concat [] \<and> list_all2 (line_block j sid) [] []"
    by simp
  then show ?case by (simp del: append_Nil2)
next
  case (Cons l ls)
  obtain block where b: "emitted (handle_line j sid l s) = emitted s @ block"
      "line_block j sid l block"
    using handle_line_block[of j sid l s] by blast
  obtain blocks where bs:
      "emitted (foldl (\<lambda>st line. handle_line j sid line st) (handle_line j sid l s) ls) =
       emitted (handle_line j sid l s) @ concat blocks"
      "list_all2 (line_block j sid) ls blocks"
    using Cons.IH[of "handle_line j sid l s"] by blast
  have "emitted (foldl (\<lambda>st line. handle_line j sid line st) s (l # ls)) =
        emitted s @ concat (block # blocks) \<and>
        list_all2 (line_block j sid) (l # ls) (block # blocks)"
    using b bs by simp
  then show ?case by blast
qed

lemma lines_frame:
  "processes (foldl (\<lambda>st line. handle_line j sid line st) s ls) = processes s \<and>
   outputBuffers (foldl (\<lambda>st line. handle_line j sid line st) s ls) = outputBuffers s \<and>
   shouldContinueLoop (foldl (\<lambda>st line. handle_line j sid line st) s ls) = shouldContinueLoop s"
  by (induction ls arbitrary: s) (simp_all add: handle_line_frame)

text \<open>
  C8, as amended. A chunk is added to what the buffer holds and the text is split at the
  line feeds: the lines joined by line feeds are that text again. The last piece stays in
  the buffer. The handler emits, in the order of the other pieces, nothing for a line of
  white space and, for another line, a block of events that starts with the event of the
  line: its parsed value, or its raw text when it does not parse. The handler returns for
  every chunk, and the process and the flag of each session are as before.
\<close>

theorem stdout_lines_emitted_or_skipped:
  "let buffer = (case outputBuffers s sid of Some b \<Rightarrow> b | None \<Rightarrow> []) @ chunk;
       pieces = split_on CHR 0x0A buffer;
       s' = stdout_data j sid chunk s
   in join_with [CHR 0x0A] pieces = buffer \<and> pieces \<noteq> [] \<and>
      outputBuffers s' = (outputBuffers s)(sid \<mapsto> last pieces) \<and>
      (\<exists>blocks. emitted s' = emitted s @ concat blocks \<and>
         list_all2 (line_block j sid) (butlast pieces) blocks) \<and>
      processes s' = processes s \<and> shouldContinueLoop s' = shouldContinueLoop s"
proof -
  define buffer where "buffer = (case outputBuffers s sid of Some b \<Rightarrow> b | None \<Rightarrow> []) @ chunk"
  define pieces where "pieces = split_on CHR 0x0A buffer"
  define s1 where "s1 = s\<lparr>outputBuffers := (outputBuffers s)(sid \<mapsto> last pieces)\<rparr>"
  have sd: "stdout_data j sid chunk s =
      foldl (\<lambda>st line. handle_line j sid line st) s1 (butlast pieces)"
    by (simp add: stdout_data_def Let_def buffer_def pieces_def s1_def)
  have "join_with [CHR 0x0A] pieces = buffer"
    unfolding pieces_def by (rule join_split_on)
  moreover have "pieces \<noteq> []"
    unfolding pieces_def by (rule split_on_not_Nil)
  moreover have "outputBuffers (stdout_data j sid chunk s) = (outputBuffers s)(sid \<mapsto> last pieces)"
    unfolding sd using lines_frame[of j sid s1 "butlast pieces"] by (simp add: s1_def)
  moreover have "\<exists>blocks. emitted (stdout_data j sid chunk s) = emitted s @ concat blocks \<and>
         list_all2 (line_block j sid) (butlast pieces) blocks"
    unfolding sd using lines_blocks[of j sid s1 "butlast pieces"] by (simp add: s1_def)
  moreover have "processes (stdout_data j sid chunk s) = processes s"
    unfolding sd using lines_frame[of j sid s1 "butlast pieces"] by (simp add: s1_def)
  moreover have "shouldContinueLoop (stdout_data j sid chunk s) = shouldContinueLoop s"
    unfolding sd using lines_frame[of j sid s1 "butlast pieces"] by (simp add: s1_def)
  ultimately show ?thesis
    unfolding Let_def buffer_def[symmetric] pieces_def[symmetric] by blast
qed

theorem stdout_lines_emitted_or_skipped_witness:
  "split_on CHR 0x0A ''{\"type\":\"result\"}\<newline>plain text\<newline>part'' =
     [''{\"type\":\"result\"}'', ''plain text'', ''part''] \<and>
   outputBuffers
     (stdout_data sample_js ''s1'' ''{\"type\":\"result\"}\<newline>plain text\<newline>part'' started) =
     (outputBuffers started)(''s1'' \<mapsto> ''part'') \<and>
   processes
     (stdout_data sample_js ''s1'' ''{\"type\":\"result\"}\<newline>plain text\<newline>part'' started) =
     processes started \<and>
   emitted
     (stdout_data sample_js ''s1'' ''{\"type\":\"result\"}\<newline>plain text\<newline>part'' started) =
     emitted started @
       [(''s1'', Stdout (JObj [(''type'', JStr ''result'')])), (''s1'', StdoutRaw ''plain text'')]"
proof -
  have b: "outputBuffers started ''s1'' = Some []"
    by (simp add: run_defs)
  have sp: "split_on CHR 0x0A ''{\"type\":\"result\"}\<newline>plain text\<newline>part'' =
     [''{\"type\":\"result\"}'', ''plain text'', ''part'']"
    by simp
  note t = stdout_lines_emitted_or_skipped
    [of started "''s1''" "''{\"type\":\"result\"}\<newline>plain text\<newline>part''" sample_js,
     unfolded Let_def b, simplified]
  from t have "outputBuffers
     (stdout_data sample_js ''s1'' ''{\"type\":\"result\"}\<newline>plain text\<newline>part'' started) =
     (outputBuffers started)(''s1'' \<mapsto> ''part'')"
    by simp
  moreover from t have "processes
     (stdout_data sample_js ''s1'' ''{\"type\":\"result\"}\<newline>plain text\<newline>part'' started) =
     processes started"
    by simp
  moreover have "emitted
     (stdout_data sample_js ''s1'' ''{\"type\":\"result\"}\<newline>plain text\<newline>part'' started) =
     emitted started @
       [(''s1'', Stdout (JObj [(''type'', JStr ''result'')])), (''s1'', StdoutRaw ''plain text'')]"
    by (simp add: stdout_data_def b Let_def)
       (simp add: handle_line_def raw_line_def emitEvent_def trim_def is_space_def sample_js_def
          sample_json_def parseRalphStatus_def status_block_def spaces_def Let_def)
  ultimately show ?thesis
    using sp by blast
qed

text \<open>
  C8 as stated fails: the chunk holds the line of three spaces, and the handler emits
  nothing for it. The line is neither parsed nor forwarded.
\<close>

theorem blank_line_dropped_counterexample:
  "split_on CHR 0x0A ''   \<newline>'' = [''   '', []] \<and>
   emitted (stdout_data sample_js ''s1'' ''   \<newline>'' started) = emitted started \<and>
   outputBuffers (stdout_data sample_js ''s1'' ''   \<newline>'' started) ''s1'' = Some []"
proof -
  have b: "outputBuffers started ''s1'' = Some []"
    by (simp add: run_defs)
  show ?thesis
    by (simp add: stdout_data_def b Let_def handle_line_def trim_def is_space_def)
qed

end
